theory Spec2Isabelle
  imports Main "HOL-Library.Word"
begin

unbundle bit_operations_syntax

section \<open>Data model of BarrelConsensus and of the BarrelToken ledger\<close>

text \<open>
  Solidity 0.8 values: an \<open>address\<close> is a 160-bit word, a \<open>bytes32\<close> a 256-bit word.
  A \<open>uint256\<close> is a natural number below \<open>2 ^ 256\<close>; checked arithmetic reverts with
  \<open>Panic\<close> where the result would leave that range, and the token's \<open>unchecked\<close> addition
  wraps modulo \<open>2 ^ 256\<close>.
\<close>

type_synonym address = "160 word"
type_synonym bytes32 = "256 word"
type_synonym uint256 = nat

datatype ProposalStatus = Pending | Executed | Expired | Rejected
datatype TradeDirection = Long | Short | Hold

record Proposal =
  proposal_id :: bytes32
  token :: address
  direction :: TradeDirection
  createdAt :: uint256
  expiresAt :: uint256
  totalStakeFor :: uint256
  totalStakeAgainst :: uint256
  status :: ProposalStatus
  creator :: address

record Stake =
  amount :: uint256
  isFor :: bool
  claimed :: bool

record AgentInfo =
  registered :: bool
  totalStaked :: uint256
  wins :: uint256
  losses :: uint256
  cooldownUntil :: uint256

datatype error =
    NotOwner | NotRegisteredAgent | AgentOnCooldown | ProposalNotActive
  | ProposalNotFinalized | AlreadyStaked | AlreadyClaimed | InsufficientStake
  | ZeroAddress
  | InsufficientBalance | InsufficientAllowance
  | Panic

datatype event =
    ProposalCreated bytes32 address TradeDirection address
  | StakePlaced bytes32 address uint256 bool
  | ConsensusReached bytes32 TradeDirection uint256
  | ProposalExpired bytes32
  | ProposalRejected bytes32
  | AgentRegistered address
  | AgentSlashed address uint256
  | RewardClaimed address bytes32 uint256
  | VaultUpdated address
  | Transfer address address uint256
  | Approval address address uint256

text \<open>
  The storage of the consensus contract, the storage of the token it escrows stakes in
  (\<open>balances\<close>, \<open>allowances\<close>), and the log of emitted events in emission order.
\<close>

record state =
  vault :: address
  owner :: address
  proposals :: "bytes32 \<Rightarrow> Proposal"
  stakes :: "bytes32 \<Rightarrow> address \<Rightarrow> Stake"
  proposalStakers :: "bytes32 \<Rightarrow> address list"
  agents :: "address \<Rightarrow> AgentInfo"
  activeProposalIds :: "bytes32 list"
  allProposalIds :: "bytes32 list"
  balances :: "address \<Rightarrow> uint256"
  allowances :: "address \<Rightarrow> address \<Rightarrow> uint256"
  events :: "event list"

text \<open>The context of a call: \<open>msg.sender\<close>, \<open>block.timestamp\<close> and \<open>address(this)\<close>.\<close>

record env =
  sender :: address
  timestamp :: uint256
  this :: address

text \<open>
  \<open>keccak256(abi.encodePacked(token, direction, block.timestamp, msg.sender))\<close> is a
  parameter of the model: any function of the four packed values.
\<close>

type_synonym hasher = "address \<Rightarrow> TradeDirection \<Rightarrow> uint256 \<Rightarrow> address \<Rightarrow> bytes32"

definition QUORUM_BPS :: uint256 where "QUORUM_BPS = 6600"
definition PROPOSAL_TIMEOUT :: uint256 where "PROPOSAL_TIMEOUT = 30"
definition COOLDOWN_PERIOD :: uint256 where "COOLDOWN_PERIOD = 60"
definition SLASH_BPS :: uint256 where "SLASH_BPS = 1000"
definition REWARD_BPS :: uint256 where "REWARD_BPS = 500"
definition MAX_UINT256 :: uint256 where "MAX_UINT256 = 2 ^ 256 - 1"

section \<open>Reverts and checked arithmetic\<close>

definition bnd :: "error + 'a \<Rightarrow> ('a \<Rightarrow> error + 'b) \<Rightarrow> error + 'b" where
  "bnd m f = (case m of Inl err \<Rightarrow> Inl err | Inr x \<Rightarrow> f x)"

definition checked_add :: "uint256 \<Rightarrow> uint256 \<Rightarrow> error + uint256" where
  "checked_add a b = (if a + b \<le> MAX_UINT256 then Inr (a + b) else Inl Panic)"

definition checked_sub :: "uint256 \<Rightarrow> uint256 \<Rightarrow> error + uint256" where
  "checked_sub a b = (if b \<le> a then Inr (a - b) else Inl Panic)"

definition checked_mul :: "uint256 \<Rightarrow> uint256 \<Rightarrow> error + uint256" where
  "checked_mul a b = (if a * b \<le> MAX_UINT256 then Inr (a * b) else Inl Panic)"

definition emit :: "event \<Rightarrow> state \<Rightarrow> state" where
  "emit ev s = s\<lparr>events := events s @ [ev]\<rparr>"

section \<open>BarrelToken: the ledger calls the consensus contract makes\<close>

text \<open>\<open>_transfer(from, to, amount)\<close>; the two balance writes happen in the source's order.\<close>

definition transfer_internal :: "state \<Rightarrow> address \<Rightarrow> address \<Rightarrow> uint256 \<Rightarrow> error + state" where
  "transfer_internal s from to amt =
     (if from = 0 then Inl ZeroAddress
      else if to = 0 then Inl ZeroAddress
      else let fromBalance = balances s from in
        if fromBalance < amt then Inl InsufficientBalance
        else
          let s1 = s\<lparr>balances := (balances s)(from := fromBalance - amt)\<rparr>;
              s2 = s1\<lparr>balances := (balances s1)(to := (balances s1 to + amt) mod 2 ^ 256)\<rparr>
          in Inr (emit (Transfer from to amt) s2))"

text \<open>\<open>_approve(tokenOwner, spender, amount)\<close>.\<close>

definition approve_internal :: "state \<Rightarrow> address \<Rightarrow> address \<Rightarrow> uint256 \<Rightarrow> error + state" where
  "approve_internal s tokenOwner spender amt =
     (if tokenOwner = 0 then Inl ZeroAddress
      else if spender = 0 then Inl ZeroAddress
      else Inr (emit (Approval tokenOwner spender amt)
                  (s\<lparr>allowances := (allowances s)(tokenOwner := (allowances s tokenOwner)(spender := amt))\<rparr>)))"

text \<open>\<open>transfer(to, amount)\<close>, called by \<open>caller\<close>.\<close>

definition transfer :: "state \<Rightarrow> address \<Rightarrow> address \<Rightarrow> uint256 \<Rightarrow> error + state" where
  "transfer s caller to amt = transfer_internal s caller to amt"

text \<open>\<open>approve(spender, amount)\<close>, called by \<open>caller\<close>.\<close>

definition approve :: "state \<Rightarrow> address \<Rightarrow> address \<Rightarrow> uint256 \<Rightarrow> error + state" where
  "approve s caller spender amt = approve_internal s caller spender amt"

text \<open>\<open>transferFrom(from, to, amount)\<close>, called by \<open>caller\<close>.\<close>

definition transferFrom :: "state \<Rightarrow> address \<Rightarrow> address \<Rightarrow> address \<Rightarrow> uint256 \<Rightarrow> error + state" where
  "transferFrom s caller from to amt =
     (let currentAllowance = allowances s from caller in
      bnd (if currentAllowance \<noteq> MAX_UINT256
           then (if currentAllowance < amt then Inl InsufficientAllowance
                 else approve_internal s from caller (currentAllowance - amt))
           else Inr s)
          (\<lambda>s1. transfer_internal s1 from to amt))"

section \<open>BarrelConsensus\<close>

text \<open>The loop of \<open>_removeFromActive\<close>, from index \<open>i\<close>: swap with the last element and pop.\<close>

function removeFromActive_loop :: "bytes32 list \<Rightarrow> bytes32 \<Rightarrow> nat \<Rightarrow> bytes32 list" where
  "removeFromActive_loop ids proposalId i =
     (if i < length ids
      then (if ids ! i = proposalId
            then butlast (ids[i := ids ! (length ids - 1)])
            else removeFromActive_loop ids proposalId (Suc i))
      else ids)"
  by pat_completeness auto
termination
  by (relation "measure (\<lambda>(ids, proposalId, i). length ids - i)") auto

declare removeFromActive_loop.simps [simp del]

definition removeFromActive_internal :: "state \<Rightarrow> bytes32 \<Rightarrow> state" where
  "removeFromActive_internal s proposalId =
     s\<lparr>activeProposalIds := removeFromActive_loop (activeProposalIds s) proposalId 0\<rparr>"

text \<open>
  \<open>_checkConsensus\<close>. The body of the source's vault branch holds only a comment, so both
  arms of that conditional leave the state as it is.
\<close>

definition checkConsensus_internal :: "state \<Rightarrow> bytes32 \<Rightarrow> error + state" where
  "checkConsensus_internal s proposalId =
     (let proposal = proposals s proposalId in
      bnd (checked_add (totalStakeFor proposal) (totalStakeAgainst proposal)) (\<lambda>totalStake.
        if totalStake = 0 then Inr s
        else
          bnd (checked_mul (totalStakeFor proposal) 10000) (\<lambda>forScaled.
          bnd (checked_mul (totalStakeAgainst proposal) 10000) (\<lambda>againstScaled.
            let forPercentage = forScaled div totalStake;
                againstPercentage = againstScaled div totalStake
            in
              if forPercentage \<ge> QUORUM_BPS then
                let s1 = s\<lparr>proposals := (proposals s)(proposalId := proposal\<lparr>status := Executed\<rparr>)\<rparr>;
                    s2 = removeFromActive_internal s1 proposalId;
                    s3 = emit (ConsensusReached proposalId (direction proposal) (totalStakeFor proposal)) s2
                in Inr (if direction proposal \<noteq> Hold \<and> vault s3 \<noteq> 0 then s3 else s3)
              else if againstPercentage \<ge> QUORUM_BPS then
                let s1 = s\<lparr>proposals := (proposals s)(proposalId := proposal\<lparr>status := Rejected\<rparr>)\<rparr>;
                    s2 = removeFromActive_internal s1 proposalId
                in Inr (emit (ProposalRejected proposalId) s2)
              else Inr s))))"

definition createProposal ::
  "hasher \<Rightarrow> state \<Rightarrow> env \<Rightarrow> address \<Rightarrow> TradeDirection \<Rightarrow> uint256 \<Rightarrow> error + (bytes32 \<times> state)" where
  "createProposal H s e tok dir initialStake =
     (if \<not> registered (agents s (sender e)) then Inl NotRegisteredAgent
      else if timestamp e < cooldownUntil (agents s (sender e)) then Inl AgentOnCooldown
      else if initialStake = 0 then Inl InsufficientStake
      else
        let proposalId = H tok dir (timestamp e) (sender e) in
        bnd (checked_add (timestamp e) PROPOSAL_TIMEOUT) (\<lambda>expiry.
          let s1 = s\<lparr>proposals := (proposals s)(proposalId :=
                     \<lparr>proposal_id = proposalId, token = tok, direction = dir,
                      createdAt = timestamp e, expiresAt = expiry,
                      totalStakeFor = initialStake, totalStakeAgainst = 0,
                      status = Pending, creator = sender e\<rparr>)\<rparr>;
              s2 = s1\<lparr>stakes := (stakes s1)(proposalId := (stakes s1 proposalId)(sender e :=
                     \<lparr>amount = initialStake, isFor = True, claimed = False\<rparr>))\<rparr>;
              s3 = s2\<lparr>proposalStakers := (proposalStakers s2)(proposalId :=
                     proposalStakers s2 proposalId @ [sender e])\<rparr>
          in
          bnd (checked_add (totalStaked (agents s3 (sender e))) initialStake) (\<lambda>staked.
            let s4 = s3\<lparr>agents := (agents s3)(sender e :=
                       (agents s3 (sender e))\<lparr>totalStaked := staked\<rparr>)\<rparr>
            in
            bnd (transferFrom s4 (this e) (sender e) (this e) initialStake) (\<lambda>s5.
              let s6 = s5\<lparr>activeProposalIds := activeProposalIds s5 @ [proposalId]\<rparr>;
                  s7 = s6\<lparr>allProposalIds := allProposalIds s6 @ [proposalId]\<rparr>;
                  s8 = emit (ProposalCreated proposalId tok dir (sender e)) s7;
                  s9 = emit (StakePlaced proposalId (sender e) initialStake True) s8
              in Inr (proposalId, s9)))))"

definition stake :: "state \<Rightarrow> env \<Rightarrow> bytes32 \<Rightarrow> uint256 \<Rightarrow> bool \<Rightarrow> error + state" where
  "stake s e proposalId amt forSide =
     (if \<not> registered (agents s (sender e)) then Inl NotRegisteredAgent
      else if status (proposals s proposalId) \<noteq> Pending then Inl ProposalNotActive
      else if timestamp e \<ge> expiresAt (proposals s proposalId) then Inl ProposalNotActive
      else if amount (stakes s proposalId (sender e)) > 0 then Inl AlreadyStaked
      else if amt = 0 then Inl InsufficientStake
      else
        let s1 = s\<lparr>stakes := (stakes s)(proposalId := (stakes s proposalId)(sender e :=
                   \<lparr>amount = amt, isFor = forSide, claimed = False\<rparr>))\<rparr>;
            s2 = s1\<lparr>proposalStakers := (proposalStakers s1)(proposalId :=
                   proposalStakers s1 proposalId @ [sender e])\<rparr>
        in
        bnd (checked_add (totalStaked (agents s2 (sender e))) amt) (\<lambda>staked.
          let s3 = s2\<lparr>agents := (agents s2)(sender e :=
                     (agents s2 (sender e))\<lparr>totalStaked := staked\<rparr>)\<rparr>;
              proposal = proposals s3 proposalId
          in
          bnd (if forSide
               then bnd (checked_add (totalStakeFor proposal) amt) (\<lambda>t.
                      Inr (s3\<lparr>proposals := (proposals s3)(proposalId := proposal\<lparr>totalStakeFor := t\<rparr>)\<rparr>))
               else bnd (checked_add (totalStakeAgainst proposal) amt) (\<lambda>t.
                      Inr (s3\<lparr>proposals := (proposals s3)(proposalId := proposal\<lparr>totalStakeAgainst := t\<rparr>)\<rparr>)))
              (\<lambda>s4.
          bnd (transferFrom s4 (this e) (sender e) (this e) amt) (\<lambda>s5.
            let s6 = emit (StakePlaced proposalId (sender e) amt forSide) s5
            in checkConsensus_internal s6 proposalId))))"

text \<open>
  \<open>claimRewards\<close> up to, and without, its final ledger call: the checks, the write of the
  \<open>claimed\<close> flag, the classification and the payout. It returns the storage as it is when
  the token is called, and the payout.
\<close>

definition claimRewards_settle :: "state \<Rightarrow> env \<Rightarrow> bytes32 \<Rightarrow> error + (state \<times> uint256)" where
  "claimRewards_settle s e proposalId =
     (let proposal = proposals s proposalId;
          userStake = stakes s proposalId (sender e)
      in
      if status proposal = Pending then Inl ProposalNotFinalized
      else if amount userStake = 0 then Inl InsufficientStake
      else if claimed userStake then Inl AlreadyClaimed
      else
        let s1 = s\<lparr>stakes := (stakes s)(proposalId := (stakes s proposalId)(sender e :=
                   userStake\<lparr>claimed := True\<rparr>))\<rparr>;
            wasWinner = ((status proposal = Executed \<and> isFor userStake) \<or>
                         (status proposal = Rejected \<and> \<not> isFor userStake))
        in
        if wasWinner then
          bnd (checked_mul (amount userStake) REWARD_BPS) (\<lambda>scaled.
            let bonus = scaled div 10000 in
            bnd (checked_add (amount userStake) bonus) (\<lambda>payout.
            bnd (checked_add (wins (agents s1 (sender e))) 1) (\<lambda>w.
              let s2 = s1\<lparr>agents := (agents s1)(sender e := (agents s1 (sender e))\<lparr>wins := w\<rparr>)\<rparr>
              in Inr (emit (RewardClaimed (sender e) proposalId payout) s2, payout))))
        else if status proposal = Expired then
          Inr (s1, amount userStake)
        else
          bnd (checked_mul (amount userStake) SLASH_BPS) (\<lambda>scaled.
            let slash = scaled div 10000 in
            bnd (checked_sub (amount userStake) slash) (\<lambda>payout.
            bnd (checked_add (losses (agents s1 (sender e))) 1) (\<lambda>l.
              let s2 = s1\<lparr>agents := (agents s1)(sender e := (agents s1 (sender e))\<lparr>losses := l\<rparr>)\<rparr>
              in
              bnd (checked_add (timestamp e) COOLDOWN_PERIOD) (\<lambda>until.
                let s3 = s2\<lparr>agents := (agents s2)(sender e :=
                           (agents s2 (sender e))\<lparr>cooldownUntil := until\<rparr>)\<rparr>
                in Inr (emit (AgentSlashed (sender e) slash) s3, payout))))))"

definition claimRewards :: "state \<Rightarrow> env \<Rightarrow> bytes32 \<Rightarrow> error + state" where
  "claimRewards s e proposalId =
     bnd (claimRewards_settle s e proposalId) (\<lambda>(s1, payout).
       if payout > 0 then transfer s1 (this e) (sender e) payout else Inr s1)"

definition expireProposal :: "state \<Rightarrow> env \<Rightarrow> bytes32 \<Rightarrow> error + state" where
  "expireProposal s e proposalId =
     (let proposal = proposals s proposalId in
      if status proposal \<noteq> Pending then Inl ProposalNotActive
      else if timestamp e < expiresAt proposal then Inl ProposalNotFinalized
      else
        let s1 = s\<lparr>proposals := (proposals s)(proposalId := proposal\<lparr>status := Expired\<rparr>)\<rparr>;
            s2 = removeFromActive_internal s1 proposalId
        in Inr (emit (ProposalExpired proposalId) s2))"

definition registerAgent :: "state \<Rightarrow> env \<Rightarrow> address \<Rightarrow> error + state" where
  "registerAgent s e agent =
     (if sender e \<noteq> owner s then Inl NotOwner
      else if agent = 0 then Inl ZeroAddress
      else Inr (emit (AgentRegistered agent)
                  (s\<lparr>agents := (agents s)(agent := (agents s agent)\<lparr>registered := True\<rparr>)\<rparr>)))"

definition setVault :: "state \<Rightarrow> env \<Rightarrow> address \<Rightarrow> error + state" where
  "setVault s e newVault =
     (if sender e \<noteq> owner s then Inl NotOwner
      else Inr (emit (VaultUpdated newVault) (s\<lparr>vault := newVault\<rparr>)))"

definition renounceOwnership :: "state \<Rightarrow> env \<Rightarrow> error + state" where
  "renounceOwnership s e =
     (if sender e \<noteq> owner s then Inl NotOwner else Inr (s\<lparr>owner := 0\<rparr>))"

section \<open>Transactions\<close>

datatype call =
    CreateProposal address TradeDirection uint256
  | StakeOn bytes32 uint256 bool
  | ClaimRewards bytes32
  | ExpireProposal bytes32
  | RegisterAgent address
  | SetVault address
  | RenounceOwnership
  | TokenApprove address uint256
  | TokenTransfer address uint256

fun exec :: "hasher \<Rightarrow> state \<Rightarrow> env \<Rightarrow> call \<Rightarrow> error + state" where
  "exec H s e (CreateProposal tok dir initialStake) =
     bnd (createProposal H s e tok dir initialStake) (\<lambda>(proposalId, s1). Inr s1)"
| "exec H s e (StakeOn proposalId amt forSide) = stake s e proposalId amt forSide"
| "exec H s e (ClaimRewards proposalId) = claimRewards s e proposalId"
| "exec H s e (ExpireProposal proposalId) = expireProposal s e proposalId"
| "exec H s e (RegisterAgent agent) = registerAgent s e agent"
| "exec H s e (SetVault newVault) = setVault s e newVault"
| "exec H s e RenounceOwnership = renounceOwnership s e"
| "exec H s e (TokenApprove spender amt) = approve s (sender e) spender amt"
| "exec H s e (TokenTransfer to amt) = transfer s (sender e) to amt"

text \<open>A transaction that reverts leaves the state as it was.\<close>

definition step :: "hasher \<Rightarrow> state \<Rightarrow> env \<times> call \<Rightarrow> state" where
  "step H s tx = (case exec H s (fst tx) (snd tx) of Inl err \<Rightarrow> s | Inr s1 \<Rightarrow> s1)"

definition run :: "hasher \<Rightarrow> state \<Rightarrow> (env \<times> call) list \<Rightarrow> state" where
  "run H s txs = foldl (step H) s txs"

text \<open>
  A \<open>createProposal\<close> transaction re-creates \<open>proposalId\<close> when the identifier it derives is
  \<open>proposalId\<close>.
\<close>

fun recreates :: "hasher \<Rightarrow> bytes32 \<Rightarrow> env \<times> call \<Rightarrow> bool" where
  "recreates H proposalId (e, CreateProposal tok dir initialStake) =
     (H tok dir (timestamp e) (sender e) = proposalId)"
| "recreates H proposalId (e, c) = False"

text \<open>The constructor, run by \<open>msg.sender\<close> against a token whose ledger is \<open>bal\<close>, \<open>alw\<close>.\<close>

definition constructor ::
  "(address \<Rightarrow> uint256) \<Rightarrow> (address \<Rightarrow> address \<Rightarrow> uint256) \<Rightarrow> env \<Rightarrow> address \<Rightarrow> state" where
  "constructor bal alw e newVault =
     \<lparr>vault = newVault, owner = sender e,
      proposals = (\<lambda>p. \<lparr>proposal_id = 0, token = 0, direction = Long, createdAt = 0,
                        expiresAt = 0, totalStakeFor = 0, totalStakeAgainst = 0,
                        status = Pending, creator = 0\<rparr>),
      stakes = (\<lambda>p a. \<lparr>amount = 0, isFor = False, claimed = False\<rparr>),
      proposalStakers = (\<lambda>p. []),
      agents = (\<lambda>a. \<lparr>registered = False, totalStaked = 0, wins = 0, losses = 0,
                      cooldownUntil = 0\<rparr>),
      activeProposalIds = [], allProposalIds = [],
      balances = bal, allowances = alw, events = []\<rparr>"

section \<open>What an event carries\<close>

datatype field =
    Bytes32Field bytes32 | AddressField address | DirectionField TradeDirection
  | UintField uint256 | BoolField bool

text \<open>The arguments of each event, in the order of its declaration.\<close>

fun payload :: "event \<Rightarrow> field list" where
  "payload (ProposalCreated p tok dir agent) =
     [Bytes32Field p, AddressField tok, DirectionField dir, AddressField agent]"
| "payload (StakePlaced p agent amt forSide) =
     [Bytes32Field p, AddressField agent, UintField amt, BoolField forSide]"
| "payload (ConsensusReached p dir totalStake) =
     [Bytes32Field p, DirectionField dir, UintField totalStake]"
| "payload (ProposalExpired p) = [Bytes32Field p]"
| "payload (ProposalRejected p) = [Bytes32Field p]"
| "payload (AgentRegistered agent) = [AddressField agent]"
| "payload (AgentSlashed agent amt) = [AddressField agent, UintField amt]"
| "payload (RewardClaimed agent p amt) = [AddressField agent, Bytes32Field p, UintField amt]"
| "payload (VaultUpdated v) = [AddressField v]"
| "payload (Transfer from to amt) = [AddressField from, AddressField to, UintField amt]"
| "payload (Approval tokenOwner spender amt) =
     [AddressField tokenOwner, AddressField spender, UintField amt]"

text \<open>The events a transaction appended to the log.\<close>

definition emitted :: "state \<Rightarrow> state \<Rightarrow> event list" where
  "emitted s s1 = drop (length (events s)) (events s1)"

section \<open>A concrete deployment\<close>

text \<open>
  The set-up of the repository's Foundry test: three funded, registered agents that have
  approved the consensus contract for the maximal allowance. \<open>example_hash\<close> stands in for
  keccak256 on these runs: it puts the low 64 bits of the sender, the direction, the low 64
  bits of the time and the low bits of the token into disjoint bit ranges, so that it is
  injective on the small values used here, and, as any function, gives equal identifiers
  for equal arguments.
\<close>

definition example_hash :: hasher where
  "example_hash tok dir ts who =
     push_bit 136 (ucast tok)
       + push_bit 72 (take_bit 64 (word_of_nat ts))
       + push_bit 64 (case dir of Long \<Rightarrow> 0 | Short \<Rightarrow> 1 | Hold \<Rightarrow> 2)
       + take_bit 64 (ucast who)"

definition mo :: address where "mo = 1"
definition vox :: address where "vox = 2"
definition degen :: address where "degen = 3"
definition stranger :: address where "stranger = 7"
definition admin :: address where "admin = 9"
definition consensus :: address where "consensus = 200"
definition venue :: address where "venue = 300"
definition targetToken :: address where "targetToken = 256"

definition at :: "address \<Rightarrow> uint256 \<Rightarrow> env" where
  "at a t = \<lparr>sender = a, timestamp = t, this = consensus\<rparr>"

definition world :: state where
  "world = run example_hash
     (constructor (\<lambda>a. if a = mo \<or> a = vox \<or> a = degen then 100000 else 0)
                  (\<lambda>a b. if b = consensus then MAX_UINT256 else 0) (at admin 1) venue)
     [(at admin 1, RegisterAgent mo), (at admin 1, RegisterAgent vox),
      (at admin 1, RegisterAgent degen)]"

definition P :: bytes32 where
  "P = example_hash targetToken Long 1000 mo"

text \<open>Mo proposes with 10,000 at time 1000.\<close>

definition created :: state where
  "created = run example_hash world [(at mo 1000, CreateProposal targetToken Long 10000)]"

text \<open>Scenario A: Vox then stakes 20,000 for.\<close>

definition scenarioA :: state where
  "scenarioA = run example_hash created [(at vox 1000, StakeOn P 20000 True)]"

text \<open>Scenario B: Vox instead stakes 25,000 against.\<close>

definition scenarioB :: state where
  "scenarioB = run example_hash created [(at vox 1000, StakeOn P 25000 False)]"

text \<open>Scenario C: Vox instead stakes 10,000 against.\<close>

definition scenarioC :: state where
  "scenarioC = run example_hash created [(at vox 1000, StakeOn P 10000 False)]"

text \<open>Scenario D: nobody else stakes, and a stranger expires the proposal at time 1031.\<close>

definition scenarioD :: state where
  "scenarioD = run example_hash created [(at stranger 1031, ExpireProposal P)]"

text \<open>Mo claims at time 1040 in scenarios A, B and D.\<close>

definition claimedA :: state where
  "claimedA = run example_hash scenarioA [(at mo 1040, ClaimRewards P)]"

definition claimedB :: state where
  "claimedB = run example_hash scenarioB [(at mo 1040, ClaimRewards P)]"

definition claimedD :: state where
  "claimedD = run example_hash scenarioD [(at mo 1040, ClaimRewards P)]"

text \<open>
  In the block of time 1000, after scenario A or scenario C, Mo sends \<open>createProposal\<close> again
  with the same token and direction, now with 5,000.
\<close>

definition recreatedA :: state where
  "recreatedA = run example_hash scenarioA [(at mo 1000, CreateProposal targetToken Long 5000)]"

definition recreatedC :: state where
  "recreatedC = run example_hash scenarioC [(at mo 1000, CreateProposal targetToken Long 5000)]"

text \<open>
  Scenario A next to a second proposal \<open>Q\<close> that Degen backs with 10,000: Mo and Vox claim on
  \<open>P\<close>, \<open>Q\<close> expires.
\<close>

definition Q :: bytes32 where
  "Q = example_hash targetToken Short 1000 degen"

definition fundedA :: state where
  "fundedA = run example_hash scenarioA
     [(at degen 1000, CreateProposal targetToken Short 10000),
      (at mo 1040, ClaimRewards P),
      (at vox 1040, ClaimRewards P),
      (at stranger 1041, ExpireProposal Q)]"

text \<open>
  One block at time 1000: Mo proposes with 20,000, Vox stakes 10,000 against, both claim;
  Mo proposes again with the same arguments; Degen stakes 10,000 against; Mo claims.
\<close>

definition settledE :: state where
  "settledE = run example_hash world
     [(at mo 1000, CreateProposal targetToken Long 20000),
      (at vox 1000, StakeOn P 10000 False),
      (at mo 1000, ClaimRewards P),
      (at vox 1000, ClaimRewards P)]"

definition recreatedE :: state where
  "recreatedE = run example_hash settledE [(at mo 1000, CreateProposal targetToken Long 20000)]"

definition requorumE :: state where
  "requorumE = run example_hash recreatedE [(at degen 1000, StakeOn P 10000 False)]"

definition reclaimedE :: state where
  "reclaimedE = run example_hash requorumE [(at mo 1000, ClaimRewards P)]"

text \<open>
  After scenario B and Mo's claim, Mo is on cooldown until 1100. Degen proposes \<open>R\<close> with
  10,000 at time 1050, and Mo stakes 5,000 on it at time 1060.
\<close>

definition R :: bytes32 where
  "R = example_hash targetToken Short 1050 degen"

definition otherB :: state where
  "otherB = run example_hash claimedB [(at degen 1050, CreateProposal targetToken Short 10000)]"

definition cooledB :: state where
  "cooledB = run example_hash otherB [(at mo 1060, StakeOn R 5000 True)]"

section \<open>Reverts and results\<close>

lemma bnd_Inl [simp]: "bnd (Inl err) f = Inl err"
  by (simp add: bnd_def)

lemma bnd_Inr [simp]: "bnd (Inr x) f = f x"
  by (simp add: bnd_def)

lemma bnd_eq_Inr: "(bnd m f = Inr y) = (\<exists>x. m = Inr x \<and> f x = Inr y)"
  by (cases m) auto

lemma checked_add_Inr: "(checked_add a b = Inr c) = (a + b \<le> MAX_UINT256 \<and> c = a + b)"
  by (auto simp: checked_add_def)

lemma checked_mul_Inr: "(checked_mul a b = Inr c) = (a * b \<le> MAX_UINT256 \<and> c = a * b)"
  by (auto simp: checked_mul_def)

lemma checked_sub_Inr: "(checked_sub a b = Inr c) = (b \<le> a \<and> c = a - b)"
  by (auto simp: checked_sub_def)

section \<open>What each call leaves alone\<close>

lemma transfer_internal_Inr:
  assumes "transfer_internal s from to amt = Inr s'"
  shows "from \<noteq> 0 \<and> to \<noteq> 0 \<and> amt \<le> balances s from \<and>
         s' = s\<lparr>balances := ((balances s)(from := balances s from - amt))
                    (to := (((balances s)(from := balances s from - amt)) to + amt) mod 2 ^ 256),
                 events := events s @ [Transfer from to amt]\<rparr>"
  using assms by (auto simp: transfer_internal_def Let_def emit_def split: if_splits)

lemma transferFrom_fields:
  assumes "transferFrom s caller from to amt = Inr s'"
  shows "proposals s' = proposals s \<and> stakes s' = stakes s \<and> agents s' = agents s \<and>
         vault s' = vault s \<and> owner s' = owner s \<and> proposalStakers s' = proposalStakers s \<and>
         activeProposalIds s' = activeProposalIds s \<and> allProposalIds s' = allProposalIds s"
  using assms
  by (auto simp: transferFrom_def Let_def bnd_eq_Inr approve_internal_def emit_def
      dest!: transfer_internal_Inr split: if_splits)

lemma transferFrom_events:
  assumes "transferFrom s caller from to amt = Inr s'"
  shows "\<exists>evs. events s' = events s @ evs @ [Transfer from to amt]"
  using assms
  by (auto simp: transferFrom_def Let_def bnd_eq_Inr approve_internal_def emit_def
      dest!: transfer_internal_Inr split: if_splits)

lemma cc_status:
  assumes "checkConsensus_internal s pid = Inr s'"
  shows "status (proposals s' pid) =
          (let f = totalStakeFor (proposals s pid); a = totalStakeAgainst (proposals s pid) in
                if f + a = 0 then status (proposals s pid)
                else if QUORUM_BPS \<le> f * 10000 div (f + a) then Executed
                else if QUORUM_BPS \<le> a * 10000 div (f + a) then Rejected
                else status (proposals s pid))"
  using assms
  by (auto simp add: checkConsensus_internal_def Let_def bnd_eq_Inr checked_add_Inr checked_mul_Inr
      removeFromActive_internal_def emit_def split: if_splits)

lemma cc_proposals_self:
  assumes "checkConsensus_internal s pid = Inr s'"
  shows "proposals s' = (proposals s)(pid := (proposals s pid)\<lparr>status := status (proposals s' pid)\<rparr>)"
  using assms
  by (auto simp add: checkConsensus_internal_def Let_def bnd_eq_Inr checked_add_Inr checked_mul_Inr
      removeFromActive_internal_def emit_def split: if_splits)

lemma cc_fields:
  assumes "checkConsensus_internal s pid = Inr s'"
  shows "stakes s' = stakes s \<and> agents s' = agents s \<and> balances s' = balances s \<and>
         allowances s' = allowances s \<and> vault s' = vault s \<and> owner s' = owner s \<and>
         proposalStakers s' = proposalStakers s \<and> allProposalIds s' = allProposalIds s \<and>
         (\<exists>st. proposals s' = (proposals s)(pid := (proposals s pid)\<lparr>status := st\<rparr>))"
proof -
  have "stakes s' = stakes s \<and> agents s' = agents s \<and> balances s' = balances s \<and>
         allowances s' = allowances s \<and> vault s' = vault s \<and> owner s' = owner s \<and>
         proposalStakers s' = proposalStakers s \<and> allProposalIds s' = allProposalIds s"
    using assms
    by (auto simp add: checkConsensus_internal_def Let_def bnd_eq_Inr checked_add_Inr checked_mul_Inr
        removeFromActive_internal_def emit_def split: if_splits)
  moreover have "\<exists>st. proposals s' = (proposals s)(pid := (proposals s pid)\<lparr>status := st\<rparr>)"
    using cc_proposals_self [OF assms] by (rule exI)
  ultimately show ?thesis by blast
qed

lemma cc_total:
  assumes "totalStakeFor (proposals s pid) * 10000 \<le> MAX_UINT256"
      and "totalStakeAgainst (proposals s pid) * 10000 \<le> MAX_UINT256"
  shows "\<exists>s'. checkConsensus_internal s pid = Inr s'"
proof -
  have "totalStakeFor (proposals s pid) + totalStakeAgainst (proposals s pid) \<le> MAX_UINT256"
    using assms by (simp add: MAX_UINT256_def)
  then show ?thesis
    using assms
    by (simp add: checkConsensus_internal_def Let_def checked_add_def checked_mul_def)
qed

lemma stake_Inr_ex:
  assumes "stake s e pid amt side = Inr s'"
  shows "\<exists>s4 s5. transferFrom s4 (this e) (sender e) (this e) amt = Inr s5 \<and>
           checkConsensus_internal (emit (StakePlaced pid (sender e) amt side) s5) pid = Inr s' \<and>
           proposals s4 = (proposals s)(pid :=
              (if side then (proposals s pid)\<lparr>totalStakeFor := totalStakeFor (proposals s pid) + amt\<rparr>
               else (proposals s pid)\<lparr>totalStakeAgainst := totalStakeAgainst (proposals s pid) + amt\<rparr>)) \<and>
           stakes s4 = (stakes s)(pid := (stakes s pid)(sender e :=
              \<lparr>amount = amt, isFor = side, claimed = False\<rparr>)) \<and>
           agents s4 = (agents s)(sender e := (agents s (sender e))
              \<lparr>totalStaked := totalStaked (agents s (sender e)) + amt\<rparr>) \<and>
           proposalStakers s4 = (proposalStakers s)(pid := proposalStakers s pid @ [sender e]) \<and>
           vault s4 = vault s \<and> owner s4 = owner s \<and> events s4 = events s \<and>
           balances s4 = balances s \<and> allowances s4 = allowances s \<and>
           activeProposalIds s4 = activeProposalIds s \<and> allProposalIds s4 = allProposalIds s"
  using assms
  apply (simp add: stake_def Let_def bnd_eq_Inr checked_add_Inr split: if_splits)
   apply (elim exE conjE, intro exI conjI, assumption, assumption, simp_all)+
  done

lemma stake_Inr_pre:
  assumes "stake s e pid amt side = Inr s'"
  shows "registered (agents s (sender e)) \<and> status (proposals s pid) = Pending \<and>
         timestamp e < expiresAt (proposals s pid) \<and> amount (stakes s pid (sender e)) = 0 \<and> 0 < amt"
  using assms
  by (simp add: stake_def split: if_splits)

lemma stake_Inr_fields:
  assumes "stake s e pid amt side = Inr s'"
  shows "\<exists>st. proposals s' = (proposals s)(pid :=
           (if side then (proposals s pid)\<lparr>totalStakeFor := totalStakeFor (proposals s pid) + amt,
                                            status := st\<rparr>
            else (proposals s pid)\<lparr>totalStakeAgainst := totalStakeAgainst (proposals s pid) + amt,
                                    status := st\<rparr>))"
    and "stakes s' = (stakes s)(pid := (stakes s pid)(sender e :=
              \<lparr>amount = amt, isFor = side, claimed = False\<rparr>))"
    and "agents s' = (agents s)(sender e := (agents s (sender e))
              \<lparr>totalStaked := totalStaked (agents s (sender e)) + amt\<rparr>)"
    and "vault s' = vault s" and "owner s' = owner s"
proof -
  from stake_Inr_ex [OF assms] obtain s4 s5 where
    tf: "transferFrom s4 (this e) (sender e) (this e) amt = Inr s5" and
    cc: "checkConsensus_internal (emit (StakePlaced pid (sender e) amt side) s5) pid = Inr s'" and
    s4: "proposals s4 = (proposals s)(pid :=
              (if side then (proposals s pid)\<lparr>totalStakeFor := totalStakeFor (proposals s pid) + amt\<rparr>
               else (proposals s pid)\<lparr>totalStakeAgainst := totalStakeAgainst (proposals s pid) + amt\<rparr>))"
        "stakes s4 = (stakes s)(pid := (stakes s pid)(sender e :=
              \<lparr>amount = amt, isFor = side, claimed = False\<rparr>))"
        "agents s4 = (agents s)(sender e := (agents s (sender e))
              \<lparr>totalStaked := totalStaked (agents s (sender e)) + amt\<rparr>)"
        "vault s4 = vault s" "owner s4 = owner s"
    by blast
  note f5 = transferFrom_fields [OF tf]
  from cc_fields [OF cc] obtain st where
    f6: "stakes s' = stakes s5" "agents s' = agents s5" "vault s' = vault s5" "owner s' = owner s5"
        "proposals s' = (proposals s5)(pid := (proposals s5 pid)\<lparr>status := st\<rparr>)"
    by (auto simp: emit_def)
  have "proposals s' = (proposals s)(pid :=
           (if side then (proposals s pid)\<lparr>totalStakeFor := totalStakeFor (proposals s pid) + amt,
                                            status := st\<rparr>
            else (proposals s pid)\<lparr>totalStakeAgainst := totalStakeAgainst (proposals s pid) + amt,
                                    status := st\<rparr>))"
    using f6 f5 s4 by simp
  then show "\<exists>st. proposals s' = (proposals s)(pid :=
           (if side then (proposals s pid)\<lparr>totalStakeFor := totalStakeFor (proposals s pid) + amt,
                                            status := st\<rparr>
            else (proposals s pid)\<lparr>totalStakeAgainst := totalStakeAgainst (proposals s pid) + amt,
                                    status := st\<rparr>))"
    by blast
  show "stakes s' = (stakes s)(pid := (stakes s pid)(sender e :=
              \<lparr>amount = amt, isFor = side, claimed = False\<rparr>))"
    using f6 f5 s4 by simp
  show "agents s' = (agents s)(sender e := (agents s (sender e))
              \<lparr>totalStaked := totalStaked (agents s (sender e)) + amt\<rparr>)"
    using f6 f5 s4 by simp
  show "vault s' = vault s" using f6 f5 s4 by simp
  show "owner s' = owner s" using f6 f5 s4 by simp
qed

lemma createProposal_Inr_pre:
  assumes "createProposal H s e tok dir st = Inr (pid, s')"
  shows "pid = H tok dir (timestamp e) (sender e) \<and> registered (agents s (sender e)) \<and>
         cooldownUntil (agents s (sender e)) \<le> timestamp e \<and> 0 < st"
  using assms
  by (auto simp: createProposal_def Let_def bnd_eq_Inr split: if_splits)

lemma createProposal_Inr_fields:
  assumes "createProposal H s e tok dir st = Inr (pid, s')"
  shows "proposals s' = (proposals s)(pid :=
           \<lparr>proposal_id = pid, token = tok, direction = dir, createdAt = timestamp e,
            expiresAt = timestamp e + PROPOSAL_TIMEOUT, totalStakeFor = st, totalStakeAgainst = 0,
            status = Pending, creator = sender e\<rparr>)"
    and "stakes s' = (stakes s)(pid := (stakes s pid)(sender e :=
           \<lparr>amount = st, isFor = True, claimed = False\<rparr>))"
    and "agents s' = (agents s)(sender e := (agents s (sender e))
           \<lparr>totalStaked := totalStaked (agents s (sender e)) + st\<rparr>)"
    and "vault s' = vault s" and "owner s' = owner s"
  using assms
  by (auto simp: createProposal_def Let_def bnd_eq_Inr checked_add_Inr emit_def
      dest!: transferFrom_fields split: if_splits)

lemma settle_Inr_pre:
  assumes "claimRewards_settle s e pid = Inr (s1, p)"
  shows "status (proposals s pid) \<noteq> Pending \<and> 0 < amount (stakes s pid (sender e)) \<and>
         \<not> claimed (stakes s pid (sender e))"
  using assms
  by (auto simp: claimRewards_settle_def Let_def split: if_splits)

lemma settle_Inr_fields:
  assumes "claimRewards_settle s e pid = Inr (s1, p)"
  shows "proposals s1 = proposals s \<and>
         stakes s1 = (stakes s)(pid := (stakes s pid)(sender e :=
            (stakes s pid (sender e))\<lparr>claimed := True\<rparr>)) \<and>
         balances s1 = balances s \<and> allowances s1 = allowances s \<and>
         vault s1 = vault s \<and> owner s1 = owner s \<and>
         (\<forall>a. a \<noteq> sender e \<longrightarrow> agents s1 a = agents s a) \<and>
         registered (agents s1 (sender e)) = registered (agents s (sender e))"
  using assms
  by (auto simp: claimRewards_settle_def Let_def bnd_eq_Inr emit_def split: if_splits)

lemma settle_winner:
  assumes "claimRewards_settle s e pid = Inr (s1, p)"
      and "(status (proposals s pid) = Executed \<and> isFor (stakes s pid (sender e))) \<or>
           (status (proposals s pid) = Rejected \<and> \<not> isFor (stakes s pid (sender e)))"
  shows "p = amount (stakes s pid (sender e))
                    + amount (stakes s pid (sender e)) * REWARD_BPS div 10000 \<and>
         agents s1 = (agents s)(sender e := (agents s (sender e))
                    \<lparr>wins := wins (agents s (sender e)) + 1\<rparr>) \<and>
         events s1 = events s @ [RewardClaimed (sender e) pid p]"
proof -
  have "claimRewards_settle s e pid =
        bnd (checked_mul (amount (stakes s pid (sender e))) REWARD_BPS) (\<lambda>scaled.
            bnd (checked_add (amount (stakes s pid (sender e))) (scaled div 10000)) (\<lambda>payout.
            bnd (checked_add (wins (agents s (sender e))) 1) (\<lambda>w.
              Inr (emit (RewardClaimed (sender e) pid payout)
                (s\<lparr>stakes := (stakes s)(pid := (stakes s pid)(sender e :=
                   (stakes s pid (sender e))\<lparr>claimed := True\<rparr>)),
                   agents := (agents s)(sender e := (agents s (sender e))\<lparr>wins := w\<rparr>)\<rparr>), payout))))"
    using assms(2) settle_Inr_pre [OF assms(1)]
    by (simp add: claimRewards_settle_def Let_def)
  with assms(1) show ?thesis
    by (auto simp: bnd_eq_Inr checked_add_Inr checked_mul_Inr emit_def)
qed

lemma transfer_internal_fields:
  assumes "transfer_internal s from to amt = Inr s'"
  shows "proposals s' = proposals s \<and> stakes s' = stakes s \<and> agents s' = agents s \<and>
         vault s' = vault s \<and> owner s' = owner s \<and> allowances s' = allowances s \<and>
         proposalStakers s' = proposalStakers s \<and>
         activeProposalIds s' = activeProposalIds s \<and> allProposalIds s' = allProposalIds s \<and>
         events s' = events s @ [Transfer from to amt]"
  using assms by (auto simp: transfer_internal_def Let_def emit_def split: if_splits)

lemma settle_expired:
  assumes "claimRewards_settle s e pid = Inr (s1, p)"
      and "status (proposals s pid) = Expired"
  shows "p = amount (stakes s pid (sender e)) \<and> agents s1 = agents s \<and> events s1 = events s"
  using assms
  by (auto simp: claimRewards_settle_def Let_def split: if_splits)

lemma settle_loser:
  assumes "claimRewards_settle s e pid = Inr (s1, p)"
      and "\<not> ((status (proposals s pid) = Executed \<and> isFor (stakes s pid (sender e))) \<or>
           (status (proposals s pid) = Rejected \<and> \<not> isFor (stakes s pid (sender e))))"
      and "status (proposals s pid) \<noteq> Expired"
  shows "p = amount (stakes s pid (sender e))
                    - amount (stakes s pid (sender e)) * SLASH_BPS div 10000 \<and>
         agents s1 = (agents s)(sender e := (agents s (sender e))
                    \<lparr>losses := losses (agents s (sender e)) + 1,
                     cooldownUntil := timestamp e + COOLDOWN_PERIOD\<rparr>) \<and>
         events s1 = events s @ [AgentSlashed (sender e)
                    (amount (stakes s pid (sender e)) * SLASH_BPS div 10000)]"
proof -
  have "claimRewards_settle s e pid =
        bnd (checked_mul (amount (stakes s pid (sender e))) SLASH_BPS) (\<lambda>scaled.
            bnd (checked_sub (amount (stakes s pid (sender e))) (scaled div 10000)) (\<lambda>payout.
            bnd (checked_add (losses (agents s (sender e))) 1) (\<lambda>l.
              bnd (checked_add (timestamp e) COOLDOWN_PERIOD) (\<lambda>until.
                Inr (emit (AgentSlashed (sender e) (scaled div 10000))
                  (s\<lparr>stakes := (stakes s)(pid := (stakes s pid)(sender e :=
                     (stakes s pid (sender e))\<lparr>claimed := True\<rparr>)),
                     agents := (agents s)(sender e := (agents s (sender e))
                       \<lparr>losses := l, cooldownUntil := until\<rparr>)\<rparr>), payout)))))"
  proof -
    have nw: "((status (proposals s pid) = Executed \<and> isFor (stakes s pid (sender e))) \<or>
           (status (proposals s pid) = Rejected \<and> \<not> isFor (stakes s pid (sender e)))) = False"
      using assms(2) by blast
    show ?thesis
      using assms(3) settle_Inr_pre [OF assms(1)]
      by (simp add: claimRewards_settle_def Let_def nw)
  qed
  with assms(1) show ?thesis
    by (auto simp: bnd_eq_Inr checked_add_Inr checked_mul_Inr checked_sub_Inr emit_def)
qed

lemma settle_payout_pos:
  assumes "claimRewards_settle s e pid = Inr (s1, p)"
  shows "0 < p"
proof -
  let ?a = "amount (stakes s pid (sender e))"
  have a: "0 < ?a" using settle_Inr_pre [OF assms] by simp
  have lt: "?a * SLASH_BPS div 10000 < ?a" using a by (simp add: SLASH_BPS_def)
  show ?thesis
  proof (cases "(status (proposals s pid) = Executed \<and> isFor (stakes s pid (sender e))) \<or>
           (status (proposals s pid) = Rejected \<and> \<not> isFor (stakes s pid (sender e)))")
    case True
    from settle_winner [OF assms True] a show ?thesis by simp
  next
    case False
    show ?thesis
    proof (cases "status (proposals s pid) = Expired")
      case True
      from settle_expired [OF assms True] a show ?thesis by simp
    next
      case notexp: False
      from settle_loser [OF assms False notexp] lt show ?thesis by simp
    qed
  qed
qed

lemma claimRewards_Inr_ex:
  assumes "claimRewards s e pid = Inr s'"
  shows "\<exists>s1 p. claimRewards_settle s e pid = Inr (s1, p) \<and> 0 < p \<and>
           transfer_internal s1 (this e) (sender e) p = Inr s'"
proof -
  from assms obtain s1 p where
    st: "claimRewards_settle s e pid = Inr (s1, p)" and
    tr: "(if 0 < p then transfer s1 (this e) (sender e) p else Inr s1) = Inr s'"
    by (auto simp: claimRewards_def bnd_eq_Inr)
  have "0 < p" using settle_payout_pos [OF st] .
  with st tr show ?thesis by (auto simp: transfer_def)
qed

lemma claimRewards_Inr_fields:
  assumes "claimRewards s e pid = Inr s'"
  shows "proposals s' = proposals s \<and>
         stakes s' = (stakes s)(pid := (stakes s pid)(sender e :=
            (stakes s pid (sender e))\<lparr>claimed := True\<rparr>)) \<and>
         vault s' = vault s \<and> owner s' = owner s \<and>
         (\<forall>a. a \<noteq> sender e \<longrightarrow> agents s' a = agents s a) \<and>
         registered (agents s' (sender e)) = registered (agents s (sender e))"
proof -
  from claimRewards_Inr_ex [OF assms] obtain s1 p where
    st: "claimRewards_settle s e pid = Inr (s1, p)" and
    tr: "transfer_internal s1 (this e) (sender e) p = Inr s'"
    by blast
  from transfer_internal_fields [OF tr] settle_Inr_fields [OF st] show ?thesis by simp
qed

lemma expireProposal_Inr_D:
  assumes "expireProposal s e pid = Inr s'"
  shows "status (proposals s pid) = Pending \<and> expiresAt (proposals s pid) \<le> timestamp e \<and>
         proposals s' = (proposals s)(pid := (proposals s pid)\<lparr>status := Expired\<rparr>) \<and>
         stakes s' = stakes s \<and> agents s' = agents s \<and> vault s' = vault s \<and> owner s' = owner s \<and>
         balances s' = balances s \<and> allowances s' = allowances s \<and>
         events s' = events s @ [ProposalExpired pid]"
  using assms
  by (auto simp: expireProposal_def Let_def emit_def removeFromActive_internal_def split: if_splits)

lemma registerAgent_Inr_D:
  assumes "registerAgent s e agent = Inr s'"
  shows "proposals s' = proposals s \<and> stakes s' = stakes s \<and>
         agents s' = (agents s)(agent := (agents s agent)\<lparr>registered := True\<rparr>)"
  using assms
  by (auto simp: registerAgent_def emit_def split: if_splits)

lemma setVault_Inr_D:
  assumes "setVault s e v = Inr s'"
  shows "proposals s' = proposals s \<and> stakes s' = stakes s \<and> agents s' = agents s"
  using assms
  by (auto simp: setVault_def emit_def split: if_splits)

lemma renounceOwnership_Inr_D:
  assumes "renounceOwnership s e = Inr s'"
  shows "proposals s' = proposals s \<and> stakes s' = stakes s \<and> agents s' = agents s"
  using assms
  by (auto simp: renounceOwnership_def split: if_splits)

lemma approve_Inr_D:
  assumes "approve s caller spender amt = Inr s'"
  shows "proposals s' = proposals s \<and> stakes s' = stakes s \<and> agents s' = agents s"
  using assms
  by (auto simp: approve_def approve_internal_def emit_def split: if_splits)

lemma transfer_Inr_D:
  assumes "transfer s caller to amt = Inr s'"
  shows "proposals s' = proposals s \<and> stakes s' = stakes s \<and> agents s' = agents s"
  using assms
  by (auto simp: transfer_def dest!: transfer_internal_fields)

section \<open>Transactions that do not re-create a proposal\<close>

lemma exec_CreateProposal_Inr:
  assumes "exec H s e (CreateProposal tok dir st) = Inr s'"
  shows "createProposal H s e tok dir st = Inr (H tok dir (timestamp e) (sender e), s')"
proof -
  from assms obtain q where q: "createProposal H s e tok dir st = Inr (q, s')"
    by (auto simp: bnd_eq_Inr)
  with createProposal_Inr_pre [OF q] show ?thesis by simp
qed

lemma exec_terminal_frozen:
  assumes ex: "exec H s e c = Inr s'"
      and fin: "status (proposals s pid) \<noteq> Pending"
      and nr: "\<not> recreates H pid (e, c)"
  shows "proposals s' pid = proposals s pid"
proof (cases c)
  case (CreateProposal tok dir st)
  with ex have cp: "createProposal H s e tok dir st = Inr (H tok dir (timestamp e) (sender e), s')"
    by (simp add: exec_CreateProposal_Inr)
  from nr CreateProposal have "H tok dir (timestamp e) (sender e) \<noteq> pid" by simp
  with createProposal_Inr_fields(1) [OF cp] show ?thesis by simp
next
  case (StakeOn q amt side)
  with ex have st: "stake s e q amt side = Inr s'" by simp
  from stake_Inr_pre [OF st] fin have "q \<noteq> pid" by auto
  with stake_Inr_fields(1) [OF st] show ?thesis by auto
next
  case (ClaimRewards q)
  with ex claimRewards_Inr_fields [of s e q s'] show ?thesis by simp
next
  case (ExpireProposal q)
  with ex have xp: "expireProposal s e q = Inr s'" by simp
  from expireProposal_Inr_D [OF xp] fin have "q \<noteq> pid" by auto
  with expireProposal_Inr_D [OF xp] show ?thesis by simp
next
  case (RegisterAgent a)
  with ex registerAgent_Inr_D [of s e a s'] show ?thesis by simp
next
  case (SetVault v)
  with ex setVault_Inr_D [of s e v s'] show ?thesis by simp
next
  case RenounceOwnership
  with ex renounceOwnership_Inr_D [of s e s'] show ?thesis by simp
next
  case (TokenApprove sp amt)
  with ex approve_Inr_D [of s "sender e" sp amt s'] show ?thesis by simp
next
  case (TokenTransfer to amt)
  with ex transfer_Inr_D [of s "sender e" to amt s'] show ?thesis by simp
qed

lemma step_terminal_frozen:
  assumes "status (proposals s pid) \<noteq> Pending" and "\<not> recreates H pid tx"
  shows "proposals (step H s tx) pid = proposals s pid"
proof (cases "exec H s (fst tx) (snd tx)")
  case (Inl err)
  then show ?thesis by (simp add: step_def)
next
  case (Inr s')
  with exec_terminal_frozen [of H s "fst tx" "snd tx" s' pid] assms
  show ?thesis by (simp add: step_def)
qed

lemma run_terminal_frozen:
  assumes "status (proposals s pid) \<noteq> Pending" and "\<forall>tx \<in> set txs. \<not> recreates H pid tx"
  shows "proposals (run H s txs) pid = proposals s pid"
  using assms
proof (induction txs arbitrary: s)
  case Nil
  show ?case by (simp add: run_def)
next
  case (Cons tx txs)
  have eq: "proposals (step H s tx) pid = proposals s pid"
    using Cons.prems by (simp add: step_terminal_frozen)
  have "proposals (run H (step H s tx) txs) pid = proposals (step H s tx) pid"
    using Cons.prems eq by (intro Cons.IH) simp_all
  then show ?case using eq by (simp add: run_def)
qed

lemma exec_stake_kept:
  assumes ex: "exec H s e c = Inr s'"
      and has: "0 < amount (stakes s pid a)"
      and nr: "\<not> recreates H pid (e, c)"
  shows "amount (stakes s' pid a) = amount (stakes s pid a) \<and>
         isFor (stakes s' pid a) = isFor (stakes s pid a) \<and>
         (claimed (stakes s pid a) \<longrightarrow> claimed (stakes s' pid a))"
proof (cases c)
  case (CreateProposal tok dir st)
  with ex have cp: "createProposal H s e tok dir st = Inr (H tok dir (timestamp e) (sender e), s')"
    by (simp add: exec_CreateProposal_Inr)
  from nr CreateProposal have "H tok dir (timestamp e) (sender e) \<noteq> pid" by simp
  with createProposal_Inr_fields(2) [OF cp] show ?thesis by simp
next
  case (StakeOn q amt side)
  with ex have st: "stake s e q amt side = Inr s'" by simp
  from stake_Inr_pre [OF st] has have "\<not> (q = pid \<and> sender e = a)" by auto
  with stake_Inr_fields(2) [OF st] show ?thesis by auto
next
  case (ClaimRewards q)
  with ex claimRewards_Inr_fields [of s e q s'] show ?thesis by simp
next
  case (ExpireProposal q)
  with ex expireProposal_Inr_D [of s e q s'] show ?thesis by simp
next
  case (RegisterAgent b)
  with ex registerAgent_Inr_D [of s e b s'] show ?thesis by simp
next
  case (SetVault v)
  with ex setVault_Inr_D [of s e v s'] show ?thesis by simp
next
  case RenounceOwnership
  with ex renounceOwnership_Inr_D [of s e s'] show ?thesis by simp
next
  case (TokenApprove sp amt)
  with ex approve_Inr_D [of s "sender e" sp amt s'] show ?thesis by simp
next
  case (TokenTransfer to amt)
  with ex transfer_Inr_D [of s "sender e" to amt s'] show ?thesis by simp
qed

lemma step_stake_kept:
  assumes "0 < amount (stakes s pid a)" and "\<not> recreates H pid tx"
  shows "amount (stakes (step H s tx) pid a) = amount (stakes s pid a) \<and>
         isFor (stakes (step H s tx) pid a) = isFor (stakes s pid a) \<and>
         (claimed (stakes s pid a) \<longrightarrow> claimed (stakes (step H s tx) pid a))"
proof (cases "exec H s (fst tx) (snd tx)")
  case (Inl err)
  then show ?thesis by (simp add: step_def)
next
  case (Inr s')
  with exec_stake_kept [of H s "fst tx" "snd tx" s' pid a] assms
  show ?thesis by (simp add: step_def)
qed

lemma run_stake_kept:
  assumes "0 < amount (stakes s pid a)" and "\<forall>tx \<in> set txs. \<not> recreates H pid tx"
  shows "amount (stakes (run H s txs) pid a) = amount (stakes s pid a) \<and>
         isFor (stakes (run H s txs) pid a) = isFor (stakes s pid a) \<and>
         (claimed (stakes s pid a) \<longrightarrow> claimed (stakes (run H s txs) pid a))"
  using assms
proof (induction txs arbitrary: s)
  case Nil
  show ?case by (simp add: run_def)
next
  case (Cons tx txs)
  have k: "amount (stakes (step H s tx) pid a) = amount (stakes s pid a) \<and>
         isFor (stakes (step H s tx) pid a) = isFor (stakes s pid a) \<and>
         (claimed (stakes s pid a) \<longrightarrow> claimed (stakes (step H s tx) pid a))"
    using Cons.prems by (simp add: step_stake_kept)
  have "amount (stakes (run H (step H s tx) txs) pid a) = amount (stakes (step H s tx) pid a) \<and>
         isFor (stakes (run H (step H s tx) txs) pid a) = isFor (stakes (step H s tx) pid a) \<and>
         (claimed (stakes (step H s tx) pid a) \<longrightarrow> claimed (stakes (run H (step H s tx) txs) pid a))"
    using Cons.prems k by (intro Cons.IH) simp_all
  with k show ?case by (simp add: run_def)
qed

lemma cc_events:
  assumes "checkConsensus_internal s pid = Inr s'"
      and "status (proposals s pid) = Pending"
  shows "events s' = events s @
          (case status (proposals s' pid) of
             Executed \<Rightarrow> [ConsensusReached pid (direction (proposals s pid))
                            (totalStakeFor (proposals s pid))]
           | Rejected \<Rightarrow> [ProposalRejected pid]
           | _ \<Rightarrow> [])"
  using assms
  by (auto simp add: checkConsensus_internal_def Let_def bnd_eq_Inr checked_add_Inr checked_mul_Inr
      removeFromActive_internal_def emit_def split: if_splits)

lemma cc_totals:
  assumes "checkConsensus_internal s pid = Inr s'"
  shows "totalStakeFor (proposals s' pid) = totalStakeFor (proposals s pid) \<and>
         totalStakeAgainst (proposals s' pid) = totalStakeAgainst (proposals s pid) \<and>
         direction (proposals s' pid) = direction (proposals s pid)"
proof -
  from cc_fields [OF assms] obtain st where
    "proposals s' = (proposals s)(pid := (proposals s pid)\<lparr>status := st\<rparr>)" by blast
  then show ?thesis by simp
qed

lemma stake_status:
  assumes "stake s e pid amt side = Inr s'"
  shows "status (proposals s' pid) =
          (let f = totalStakeFor (proposals s pid) + (if side then amt else 0);
               a = totalStakeAgainst (proposals s pid) + (if side then 0 else amt)
           in if QUORUM_BPS \<le> f * 10000 div (f + a) then Executed
              else if QUORUM_BPS \<le> a * 10000 div (f + a) then Rejected
              else Pending)"
    and "totalStakeFor (proposals s' pid) = totalStakeFor (proposals s pid) + (if side then amt else 0)"
    and "totalStakeAgainst (proposals s' pid) = totalStakeAgainst (proposals s pid) + (if side then 0 else amt)"
    and "direction (proposals s' pid) = direction (proposals s pid)"
    and "\<exists>evs. events s' = events s @ evs @
           [Transfer (sender e) (this e) amt, StakePlaced pid (sender e) amt side] @
           (case status (proposals s' pid) of
             Executed \<Rightarrow> [ConsensusReached pid (direction (proposals s pid))
                            (totalStakeFor (proposals s' pid))]
           | Rejected \<Rightarrow> [ProposalRejected pid]
           | _ \<Rightarrow> [])"
proof -
  from stake_Inr_ex [OF assms] obtain s4 s5 where
    tf: "transferFrom s4 (this e) (sender e) (this e) amt = Inr s5" and
    cc: "checkConsensus_internal (emit (StakePlaced pid (sender e) amt side) s5) pid = Inr s'" and
    s4: "proposals s4 = (proposals s)(pid :=
              (if side then (proposals s pid)\<lparr>totalStakeFor := totalStakeFor (proposals s pid) + amt\<rparr>
               else (proposals s pid)\<lparr>totalStakeAgainst := totalStakeAgainst (proposals s pid) + amt\<rparr>))"
        "events s4 = events s"
    by blast
  let ?s6 = "emit (StakePlaced pid (sender e) amt side) s5"
  have p6: "proposals ?s6 pid =
              (if side then (proposals s pid)\<lparr>totalStakeFor := totalStakeFor (proposals s pid) + amt\<rparr>
               else (proposals s pid)\<lparr>totalStakeAgainst := totalStakeAgainst (proposals s pid) + amt\<rparr>)"
    using transferFrom_fields [OF tf] s4 by (simp add: emit_def)
  have pend: "status (proposals s pid) = Pending" and pos: "0 < amt"
    using stake_Inr_pre [OF assms] by simp_all
  have pend6: "status (proposals ?s6 pid) = Pending"
    using p6 pend by simp
  have f6: "totalStakeFor (proposals ?s6 pid) = totalStakeFor (proposals s pid) + (if side then amt else 0)"
    using p6 by simp
  have a6: "totalStakeAgainst (proposals ?s6 pid) = totalStakeAgainst (proposals s pid) + (if side then 0 else amt)"
    using p6 by simp
  have d6: "direction (proposals ?s6 pid) = direction (proposals s pid)"
    using p6 by simp
  show "status (proposals s' pid) =
          (let f = totalStakeFor (proposals s pid) + (if side then amt else 0);
               a = totalStakeAgainst (proposals s pid) + (if side then 0 else amt)
           in if QUORUM_BPS \<le> f * 10000 div (f + a) then Executed
              else if QUORUM_BPS \<le> a * 10000 div (f + a) then Rejected
              else Pending)"
    using cc_status [OF cc] f6 a6 pend6 pos by (simp add: Let_def)
  show tf': "totalStakeFor (proposals s' pid) = totalStakeFor (proposals s pid) + (if side then amt else 0)"
    using cc_totals [OF cc] f6 by simp
  show "totalStakeAgainst (proposals s' pid) = totalStakeAgainst (proposals s pid) + (if side then 0 else amt)"
    using cc_totals [OF cc] a6 by simp
  show "direction (proposals s' pid) = direction (proposals s pid)"
    using cc_totals [OF cc] d6 by simp
  from transferFrom_events [OF tf] s4 obtain evs where
    e5: "events s5 = events s @ evs @ [Transfer (sender e) (this e) amt]" by auto
  have "events s' = events s @ evs @
           [Transfer (sender e) (this e) amt, StakePlaced pid (sender e) amt side] @
           (case status (proposals s' pid) of
             Executed \<Rightarrow> [ConsensusReached pid (direction (proposals s pid))
                            (totalStakeFor (proposals s' pid))]
           | Rejected \<Rightarrow> [ProposalRejected pid]
           | _ \<Rightarrow> [])"
    using cc_events [OF cc pend6] e5 d6 cc_totals [OF cc]
    by (simp add: emit_def split: ProposalStatus.splits)
  then show "\<exists>evs. events s' = events s @ evs @
           [Transfer (sender e) (this e) amt, StakePlaced pid (sender e) amt side] @
           (case status (proposals s' pid) of
             Executed \<Rightarrow> [ConsensusReached pid (direction (proposals s pid))
                            (totalStakeFor (proposals s' pid))]
           | Rejected \<Rightarrow> [ProposalRejected pid]
           | _ \<Rightarrow> [])"
    by blast
qed

lemma checked_add_Inl: "checked_add a b = Inl err \<Longrightarrow> err = Panic"
  by (auto simp: checked_add_def split: if_splits)

lemma checked_mul_Inl: "checked_mul a b = Inl err \<Longrightarrow> err = Panic"
  by (auto simp: checked_mul_def split: if_splits)

lemma transfer_internal_Inl:
  "transfer_internal s from to amt = Inl err \<Longrightarrow> err = ZeroAddress \<or> err = InsufficientBalance"
  by (auto simp: transfer_internal_def Let_def split: if_splits)

lemma transferFrom_Inl:
  "transferFrom s caller from to amt = Inl err \<Longrightarrow>
     err = ZeroAddress \<or> err = InsufficientBalance \<or> err = InsufficientAllowance"
  by (auto simp: transferFrom_def Let_def bnd_def approve_internal_def
      dest: transfer_internal_Inl split: if_splits sum.splits)

lemma cc_Inl: "checkConsensus_internal s pid = Inl err \<Longrightarrow> err = Panic"
  by (auto simp: checkConsensus_internal_def Let_def bnd_def
      dest: checked_add_Inl checked_mul_Inl split: if_splits sum.splits)

lemma bnd_eq_Inl: "(bnd m f = Inl err) = (m = Inl err \<or> (\<exists>x. m = Inr x \<and> f x = Inl err))"
  by (cases m) auto

lemma createProposal_cooldown:
  "(createProposal H s e tok dir st = Inl AgentOnCooldown) =
     (registered (agents s (sender e)) \<and> timestamp e < cooldownUntil (agents s (sender e)))"
proof (cases "registered (agents s (sender e)) \<and> \<not> timestamp e < cooldownUntil (agents s (sender e))
               \<and> st \<noteq> 0")
  case False
  then show ?thesis by (auto simp: createProposal_def)
next
  case True
  have "createProposal H s e tok dir st \<noteq> Inl AgentOnCooldown"
    using True
    by (auto simp: createProposal_def Let_def bnd_eq_Inl
        dest: checked_add_Inl transferFrom_Inl)
  with True show ?thesis by simp
qed

lemma stake_never_cooldown:
  "stake s e pid amt side \<noteq> Inl AgentOnCooldown"
  by (auto simp: stake_def Let_def bnd_eq_Inl
      dest: checked_add_Inl transferFrom_Inl cc_Inl split: if_splits)

section \<open>Claims and reverts of single calls\<close>

lemma transfer_internal_balances:
  assumes "transfer_internal s from to amt = Inr s'"
  shows "balances s' from = (if to = from then (balances s from - amt + amt) mod 2 ^ 256
                             else balances s from - amt) \<and>
         (to \<noteq> from \<longrightarrow> balances s' to = (balances s to + amt) mod 2 ^ 256)"
  using assms by (auto simp: transfer_internal_def Let_def emit_def split: if_splits)

lemma claimRewards_paid:
  assumes "claimRewards s e pid = Inr s'"
  shows "\<exists>s1 p. claimRewards_settle s e pid = Inr (s1, p) \<and> agents s' = agents s1 \<and>
           events s' = events s1 @ [Transfer (this e) (sender e) p] \<and>
           (sender e \<noteq> this e \<longrightarrow>
              balances s' (this e) = balances s (this e) - p \<and>
              balances s' (sender e) = (balances s (sender e) + p) mod 2 ^ 256)"
proof -
  from claimRewards_Inr_ex [OF assms] obtain s1 p where
    st: "claimRewards_settle s e pid = Inr (s1, p)" and
    tr: "transfer_internal s1 (this e) (sender e) p = Inr s'"
    by blast
  have b1: "balances s1 = balances s" using settle_Inr_fields [OF st] by simp
  have "sender e \<noteq> this e \<longrightarrow>
              balances s' (this e) = balances s (this e) - p \<and>
              balances s' (sender e) = (balances s (sender e) + p) mod 2 ^ 256"
    using transfer_internal_balances [OF tr] b1 by auto
  then show ?thesis
    using st transfer_internal_fields [OF tr] by blast
qed

lemma stake_not_active:
  assumes "status (proposals s pid) \<noteq> Pending \<or> expiresAt (proposals s pid) \<le> timestamp e"
  shows "stake s e pid amt side =
           Inl (if registered (agents s (sender e)) then ProposalNotActive else NotRegisteredAgent)"
  using assms by (auto simp: stake_def)

lemma stake_again:
  assumes "0 < amount (stakes s pid (sender e))"
  shows "stake s e pid amt side =
           Inl (if \<not> registered (agents s (sender e)) then NotRegisteredAgent
                else if status (proposals s pid) = Pending \<and> timestamp e < expiresAt (proposals s pid)
                then AlreadyStaked else ProposalNotActive)"
  using assms by (auto simp: stake_def)

lemma cc_vault:
  "checkConsensus_internal (s\<lparr>vault := v\<rparr>) pid =
     (case checkConsensus_internal s pid of Inl err \<Rightarrow> Inl err | Inr t \<Rightarrow> Inr (t\<lparr>vault := v\<rparr>))"
  by (simp add: checkConsensus_internal_def removeFromActive_internal_def emit_def Let_def bnd_def
      checked_add_def checked_mul_def)

lemma exec_to_Executed:
  assumes ex: "exec H s e c = Inr s'"
      and before: "status (proposals s pid) \<noteq> Executed"
      and after: "status (proposals s' pid) = Executed"
  shows "(\<exists>amt side. c = StakeOn pid amt side) \<and>
         last (events s') = ConsensusReached pid (direction (proposals s' pid))
                              (totalStakeFor (proposals s' pid))"
proof (cases c)
  case (CreateProposal tok dir st)
  with ex have cp: "createProposal H s e tok dir st = Inr (H tok dir (timestamp e) (sender e), s')"
    by (simp add: exec_CreateProposal_Inr)
  from createProposal_Inr_fields(1) [OF cp] before after show ?thesis
    by (auto split: if_splits)
next
  case (StakeOn q amt side)
  with ex have st: "stake s e q amt side = Inr s'" by simp
  have "q = pid"
  proof (rule ccontr)
    assume "q \<noteq> pid"
    with stake_Inr_fields(1) [OF st] have "proposals s' pid = proposals s pid" by auto
    with before after show False by simp
  qed
  with st have st': "stake s e pid amt side = Inr s'" by simp
  from stake_status(5) [OF st'] after obtain evs where
    "events s' = events s @ evs @
       [Transfer (sender e) (this e) amt, StakePlaced pid (sender e) amt side,
        ConsensusReached pid (direction (proposals s pid)) (totalStakeFor (proposals s' pid))]"
    by auto
  with stake_status(4) [OF st'] StakeOn \<open>q = pid\<close> show ?thesis by simp
next
  case (ClaimRewards q)
  with ex claimRewards_Inr_fields [of s e q s'] before after show ?thesis by simp
next
  case (ExpireProposal q)
  with ex expireProposal_Inr_D [of s e q s'] before after show ?thesis
    by (auto split: if_splits)
next
  case (RegisterAgent a)
  with ex registerAgent_Inr_D [of s e a s'] before after show ?thesis by simp
next
  case (SetVault v)
  with ex setVault_Inr_D [of s e v s'] before after show ?thesis by simp
next
  case RenounceOwnership
  with ex renounceOwnership_Inr_D [of s e s'] before after show ?thesis by simp
next
  case (TokenApprove sp amt)
  with ex approve_Inr_D [of s "sender e" sp amt s'] before after show ?thesis by simp
next
  case (TokenTransfer to amt)
  with ex transfer_Inr_D [of s "sender e" to amt s'] before after show ?thesis by simp
qed

lemma claimRewards_not_finalized:
  "status (proposals s pid) = Pending \<Longrightarrow> claimRewards s e pid = Inl ProposalNotFinalized"
  by (simp add: claimRewards_def claimRewards_settle_def)

lemma claimRewards_flag_before_transfer:
  assumes "claimRewards s e pid = Inr s'"
  shows "\<exists>s1 p. claimRewards_settle s e pid = Inr (s1, p) \<and> claimed (stakes s1 pid (sender e)) \<and>
           transfer s1 (this e) (sender e) p = Inr s'"
proof -
  from claimRewards_Inr_ex [OF assms] obtain s1 p where
    st: "claimRewards_settle s e pid = Inr (s1, p)" and
    tr: "transfer_internal s1 (this e) (sender e) p = Inr s'"
    by blast
  from settle_Inr_fields [OF st] have "claimed (stakes s1 pid (sender e))" by simp
  with st tr show ?thesis by (auto simp: transfer_def)
qed

lemma claimRewards_twice:
  assumes "claimRewards s e pid = Inr s'" and "sender e' = sender e"
  shows "claimRewards s' e' pid = Inl AlreadyClaimed"
proof -
  from claimRewards_Inr_ex [OF assms(1)] obtain s1 p where
    st: "claimRewards_settle s e pid = Inr (s1, p)" by blast
  from claimRewards_Inr_fields [OF assms(1)] settle_Inr_pre [OF st] assms(2)
  show ?thesis
    by (simp add: claimRewards_def claimRewards_settle_def)
qed

section \<open>Registration is never revoked\<close>

lemma exec_registered_kept:
  assumes ex: "exec H s e c = Inr s'" and reg: "registered (agents s a)"
  shows "registered (agents s' a)"
proof (cases c)
  case (CreateProposal tok dir st)
  with ex have cp: "createProposal H s e tok dir st = Inr (H tok dir (timestamp e) (sender e), s')"
    by (simp add: exec_CreateProposal_Inr)
  from createProposal_Inr_fields(3) [OF cp] reg show ?thesis by auto
next
  case (StakeOn q amt side)
  with ex have st: "stake s e q amt side = Inr s'" by simp
  from stake_Inr_fields(3) [OF st] reg show ?thesis by auto
next
  case (ClaimRewards q)
  with ex have cl: "claimRewards s e q = Inr s'" by simp
  from claimRewards_Inr_fields [OF cl] reg show ?thesis
    by (cases "a = sender e") simp_all
next
  case (ExpireProposal q)
  with ex expireProposal_Inr_D [of s e q s'] reg show ?thesis by simp
next
  case (RegisterAgent b)
  with ex registerAgent_Inr_D [of s e b s'] reg show ?thesis by auto
next
  case (SetVault v)
  with ex setVault_Inr_D [of s e v s'] reg show ?thesis by simp
next
  case RenounceOwnership
  with ex renounceOwnership_Inr_D [of s e s'] reg show ?thesis by simp
next
  case (TokenApprove sp amt)
  with ex approve_Inr_D [of s "sender e" sp amt s'] reg show ?thesis by simp
next
  case (TokenTransfer to amt)
  with ex transfer_Inr_D [of s "sender e" to amt s'] reg show ?thesis by simp
qed

lemma step_registered_kept:
  assumes "registered (agents s a)"
  shows "registered (agents (step H s tx) a)"
proof (cases "exec H s (fst tx) (snd tx)")
  case (Inl err)
  with assms show ?thesis by (simp add: step_def)
next
  case (Inr s')
  with exec_registered_kept [of H s "fst tx" "snd tx" s' a] assms
  show ?thesis by (simp add: step_def)
qed

lemma run_registered_kept:
  assumes "registered (agents s a)"
  shows "registered (agents (run H s txs) a)"
  using assms
proof (induction txs arbitrary: s)
  case Nil
  then show ?case by (simp add: run_def)
next
  case (Cons tx txs)
  have "registered (agents (step H s tx) a)"
    using Cons.prems by (rule step_registered_kept)
  then have "registered (agents (run H (step H s tx) txs) a)"
    by (rule Cons.IH)
  then show ?case by (simp add: run_def)
qed

section \<open>What a claim pays, and when it returns\<close>

lemma claim_payouts:
  assumes "claimRewards s e pid = Inr s'"
  shows "let a = amount (stakes s pid (sender e));
             st = status (proposals s pid);
             side = isFor (stakes s pid (sender e));
             before = agents s (sender e);
             after = agents s' (sender e);
             payout = (if (st = Executed \<and> side) \<or> (st = Rejected \<and> \<not> side)
                       then a + a * 500 div 10000
                       else if st = Expired then a
                       else a - a * 1000 div 10000)
         in st \<noteq> Pending \<and> 0 < a \<and>
            last (events s') = Transfer (this e) (sender e) payout \<and>
            (sender e \<noteq> this e \<longrightarrow>
               balances s' (sender e) = (balances s (sender e) + payout) mod 2 ^ 256 \<and>
               balances s' (this e) = balances s (this e) - payout) \<and>
            (if (st = Executed \<and> side) \<or> (st = Rejected \<and> \<not> side)
             then wins after = wins before + 1 \<and> losses after = losses before \<and>
                  cooldownUntil after = cooldownUntil before
             else if st = Expired then after = before
             else losses after = losses before + 1 \<and> wins after = wins before)"
proof -
  from claimRewards_paid [OF assms] obtain s1 p where
    st: "claimRewards_settle s e pid = Inr (s1, p)" and
    ag: "agents s' = agents s1" and
    ev: "events s' = events s1 @ [Transfer (this e) (sender e) p]" and
    b2: "sender e \<noteq> this e \<longrightarrow>
              balances s' (this e) = balances s (this e) - p \<and>
              balances s' (sender e) = (balances s (sender e) + p) mod 2 ^ 256"
    by blast
  note pre = settle_Inr_pre [OF st]
  show ?thesis
  proof (cases "(status (proposals s pid) = Executed \<and> isFor (stakes s pid (sender e))) \<or>
           (status (proposals s pid) = Rejected \<and> \<not> isFor (stakes s pid (sender e)))")
    case True
    from settle_winner [OF st True] pre ag ev b2 True show ?thesis
      by (simp add: Let_def REWARD_BPS_def)
  next
    case False
    show ?thesis
    proof (cases "status (proposals s pid) = Expired")
      case True
      from settle_expired [OF st True] pre ag ev b2 True show ?thesis
        by (simp add: Let_def)
    next
      case notexp: False
      have nw: "((status (proposals s pid) = Executed \<and> isFor (stakes s pid (sender e))) \<or>
           (status (proposals s pid) = Rejected \<and> \<not> isFor (stakes s pid (sender e)))) = False"
        using False by blast
      from settle_loser [OF st False notexp] pre ag ev b2 notexp show ?thesis
        by (simp add: Let_def SLASH_BPS_def nw)
    qed
  qed
qed

lemma settle_succeeds:
  assumes fin: "status (proposals s pid) \<noteq> Pending"
      and pos: "0 < amount (stakes s pid (sender e))"
      and unclaimed: "\<not> claimed (stakes s pid (sender e))"
      and fits: "amount (stakes s pid (sender e)) * 1000 \<le> MAX_UINT256"
      and w: "wins (agents s (sender e)) < MAX_UINT256"
      and l: "losses (agents s (sender e)) < MAX_UINT256"
      and t: "timestamp e + 60 \<le> MAX_UINT256"
  shows "\<exists>s1 p. claimRewards_settle s e pid = Inr (s1, p) \<and>
           p \<le> amount (stakes s pid (sender e)) + amount (stakes s pid (sender e)) * 500 div 10000"
proof -
  let ?a = "amount (stakes s pid (sender e))"
  have m1: "?a * REWARD_BPS \<le> MAX_UINT256" using fits by (simp add: REWARD_BPS_def)
  have m2: "?a * SLASH_BPS \<le> MAX_UINT256" using fits by (simp add: SLASH_BPS_def)
  have m3: "?a + ?a * REWARD_BPS div 10000 \<le> MAX_UINT256"
    using fits by (simp add: REWARD_BPS_def)
  have m4: "?a * SLASH_BPS div 10000 \<le> ?a" by (simp add: SLASH_BPS_def)
  have m5: "wins (agents s (sender e)) + 1 \<le> MAX_UINT256" using w by simp
  have m6: "losses (agents s (sender e)) + 1 \<le> MAX_UINT256" using l by simp
  have m7: "timestamp e + COOLDOWN_PERIOD \<le> MAX_UINT256" using t by (simp add: COOLDOWN_PERIOD_def)
  show ?thesis
  proof (cases "(status (proposals s pid) = Executed \<and> isFor (stakes s pid (sender e))) \<or>
           (status (proposals s pid) = Rejected \<and> \<not> isFor (stakes s pid (sender e)))")
    case True
    then show ?thesis
      using fin pos unclaimed m1 m3 m5
      by (simp add: claimRewards_settle_def Let_def checked_mul_def checked_add_def REWARD_BPS_def)
  next
    case False
    then have nw: "((status (proposals s pid) = Executed \<and> isFor (stakes s pid (sender e))) \<or>
           (status (proposals s pid) = Rejected \<and> \<not> isFor (stakes s pid (sender e)))) = False"
      by blast
    show ?thesis
    proof (cases "status (proposals s pid) = Expired")
      case True
      then show ?thesis
        using fin pos unclaimed
        by (simp add: claimRewards_settle_def Let_def)
    next
      case notexp: False
      show ?thesis
        using fin pos unclaimed notexp m2 m4 m6 m7
        by (simp add: claimRewards_settle_def Let_def nw checked_mul_def checked_add_def
            checked_sub_def)
    qed
  qed
qed

lemma claimRewards_succeeds:
  assumes fin: "status (proposals s pid) \<noteq> Pending"
      and pos: "0 < amount (stakes s pid (sender e))"
      and unclaimed: "\<not> claimed (stakes s pid (sender e))"
      and fits: "amount (stakes s pid (sender e)) * 1000 \<le> MAX_UINT256"
      and w: "wins (agents s (sender e)) < MAX_UINT256"
      and l: "losses (agents s (sender e)) < MAX_UINT256"
      and t: "timestamp e + 60 \<le> MAX_UINT256"
      and nz: "this e \<noteq> 0" "sender e \<noteq> 0"
      and funded: "amount (stakes s pid (sender e)) + amount (stakes s pid (sender e)) * 500 div 10000
                     \<le> balances s (this e)"
  shows "\<exists>s'. claimRewards s e pid = Inr s'"
proof -
  from settle_succeeds [OF fin pos unclaimed fits w l t] obtain s1 p where
    st: "claimRewards_settle s e pid = Inr (s1, p)" and
    le: "p \<le> amount (stakes s pid (sender e)) + amount (stakes s pid (sender e)) * 500 div 10000"
    by blast
  have b1: "balances s1 = balances s" using settle_Inr_fields [OF st] by simp
  have "p \<le> balances s1 (this e)" using le funded b1 by simp
  then have "\<exists>s'. transfer s1 (this e) (sender e) p = Inr s'"
    using nz by (simp add: transfer_def transfer_internal_def Let_def)
  with st show ?thesis
    by (auto simp: claimRewards_def)
qed

section \<open>When a stake is accepted\<close>

lemma transferFrom_returns:
  "(\<exists>s'. transferFrom s caller from to amt = Inr s') =
     (from \<noteq> 0 \<and> to \<noteq> 0 \<and> amt \<le> balances s from \<and>
      (allowances s from caller = MAX_UINT256 \<or>
       (amt \<le> allowances s from caller \<and> caller \<noteq> 0)))"
  by (auto simp: transferFrom_def transfer_internal_def approve_internal_def emit_def Let_def
      split: if_splits)

lemma cc_returns:
  "(\<exists>s'. checkConsensus_internal s pid = Inr s') =
     (totalStakeFor (proposals s pid) + totalStakeAgainst (proposals s pid) \<le> MAX_UINT256 \<and>
      (totalStakeFor (proposals s pid) + totalStakeAgainst (proposals s pid) \<noteq> 0 \<longrightarrow>
         totalStakeFor (proposals s pid) * 10000 \<le> MAX_UINT256 \<and>
         totalStakeAgainst (proposals s pid) * 10000 \<le> MAX_UINT256))"
  by (simp add: checkConsensus_internal_def Let_def checked_add_def checked_mul_def)

lemma stake_arith:
  assumes "stake s e pid amt side = Inr s'"
  shows "totalStaked (agents s (sender e)) + amt \<le> MAX_UINT256"
  using assms
  by (simp add: stake_def Let_def bnd_eq_Inr checked_add_Inr split: if_splits)

lemma stake_accepted:
  assumes reg: "registered (agents s (sender e))"
      and pend: "status (proposals s pid) = Pending"
      and live: "timestamp e < expiresAt (proposals s pid)"
      and fresh: "amount (stakes s pid (sender e)) = 0"
      and pos: "0 < amt"
      and staked: "totalStaked (agents s (sender e)) + amt \<le> MAX_UINT256"
      and f: "(totalStakeFor (proposals s pid) + (if side then amt else 0)) * 10000 \<le> MAX_UINT256"
      and a: "(totalStakeAgainst (proposals s pid) + (if side then 0 else amt)) * 10000 \<le> MAX_UINT256"
      and nz: "sender e \<noteq> 0" "this e \<noteq> 0"
      and bal: "amt \<le> balances s (sender e)"
      and alw: "allowances s (sender e) (this e) = MAX_UINT256 \<or> amt \<le> allowances s (sender e) (this e)"
  shows "\<exists>s'. stake s e pid amt side = Inr s'"
proof -
  define p4 where "p4 = (if side
      then (proposals s pid)\<lparr>totalStakeFor := totalStakeFor (proposals s pid) + amt\<rparr>
      else (proposals s pid)\<lparr>totalStakeAgainst := totalStakeAgainst (proposals s pid) + amt\<rparr>)"
  define s4 where "s4 = s\<lparr>stakes := (stakes s)(pid := (stakes s pid)(sender e :=
        \<lparr>amount = amt, isFor = side, claimed = False\<rparr>)),
      proposalStakers := (proposalStakers s)(pid := proposalStakers s pid @ [sender e]),
      agents := (agents s)(sender e := (agents s (sender e))
        \<lparr>totalStaked := totalStaked (agents s (sender e)) + amt\<rparr>),
      proposals := (proposals s)(pid := p4)\<rparr>"
  have fa: "totalStakeFor (proposals s pid) + (if side then amt else 0) \<le> MAX_UINT256"
           "totalStakeAgainst (proposals s pid) + (if side then 0 else amt) \<le> MAX_UINT256"
    using f a by (cases side; simp)+
  have eq: "stake s e pid amt side =
      bnd (transferFrom s4 (this e) (sender e) (this e) amt) (\<lambda>s5.
        checkConsensus_internal (emit (StakePlaced pid (sender e) amt side) s5) pid)"
    using reg pend live fresh pos staked fa
    by (cases side) (simp_all add: stake_def Let_def checked_add_def s4_def p4_def)
  have "\<exists>s5. transferFrom s4 (this e) (sender e) (this e) amt = Inr s5"
    using nz bal alw by (simp add: transferFrom_returns s4_def)
  then obtain s5 where tf: "transferFrom s4 (this e) (sender e) (this e) amt = Inr s5" by blast
  let ?s6 = "emit (StakePlaced pid (sender e) amt side) s5"
  have p6: "proposals ?s6 pid = p4"
    using transferFrom_fields [OF tf] by (simp add: emit_def s4_def)
  have t6: "totalStakeFor (proposals ?s6 pid) = totalStakeFor (proposals s pid) + (if side then amt else 0)"
           "totalStakeAgainst (proposals ?s6 pid) = totalStakeAgainst (proposals s pid) + (if side then 0 else amt)"
    unfolding p6 by (simp_all add: p4_def)
  have sum: "totalStakeFor (proposals ?s6 pid) + totalStakeAgainst (proposals ?s6 pid) \<le> MAX_UINT256"
    unfolding t6 using f a by (cases side) simp_all
  have "\<exists>s'. checkConsensus_internal ?s6 pid = Inr s'"
    unfolding cc_returns using sum f a t6 by simp
  with eq tf show ?thesis by simp
qed

lemma stake_accepted_only:
  assumes st: "stake s e pid amt side = Inr s'"
  shows "registered (agents s (sender e)) \<and> status (proposals s pid) = Pending \<and>
         timestamp e < expiresAt (proposals s pid) \<and> amount (stakes s pid (sender e)) = 0 \<and>
         0 < amt \<and> totalStaked (agents s (sender e)) + amt \<le> MAX_UINT256 \<and>
         (totalStakeFor (proposals s pid) + (if side then amt else 0)) * 10000 \<le> MAX_UINT256 \<and>
         (totalStakeAgainst (proposals s pid) + (if side then 0 else amt)) * 10000 \<le> MAX_UINT256 \<and>
         sender e \<noteq> 0 \<and> this e \<noteq> 0 \<and> amt \<le> balances s (sender e) \<and>
         (allowances s (sender e) (this e) = MAX_UINT256 \<or> amt \<le> allowances s (sender e) (this e))"
proof -
  note pre = stake_Inr_pre [OF st]
  from stake_Inr_ex [OF st] obtain s4 s5 where
    tf: "transferFrom s4 (this e) (sender e) (this e) amt = Inr s5" and
    cc: "checkConsensus_internal (emit (StakePlaced pid (sender e) amt side) s5) pid = Inr s'" and
    p4: "proposals s4 = (proposals s)(pid :=
              (if side then (proposals s pid)\<lparr>totalStakeFor := totalStakeFor (proposals s pid) + amt\<rparr>
               else (proposals s pid)\<lparr>totalStakeAgainst := totalStakeAgainst (proposals s pid) + amt\<rparr>))" and
    b4: "balances s4 = balances s" "allowances s4 = allowances s"
    by blast
  have led: "sender e \<noteq> 0 \<and> this e \<noteq> 0 \<and> amt \<le> balances s (sender e) \<and>
         (allowances s (sender e) (this e) = MAX_UINT256 \<or> amt \<le> allowances s (sender e) (this e))"
    using tf transferFrom_returns [of s4 "this e" "sender e" "this e" amt] b4 by auto
  let ?s6 = "emit (StakePlaced pid (sender e) amt side) s5"
  have t6: "totalStakeFor (proposals ?s6 pid) = totalStakeFor (proposals s pid) + (if side then amt else 0)"
           "totalStakeAgainst (proposals ?s6 pid) = totalStakeAgainst (proposals s pid) + (if side then 0 else amt)"
    using transferFrom_fields [OF tf] p4 by (simp_all add: emit_def)
  have nz: "totalStakeFor (proposals ?s6 pid) + totalStakeAgainst (proposals ?s6 pid) \<noteq> 0"
    unfolding t6 using pre by simp
  have "totalStakeFor (proposals ?s6 pid) * 10000 \<le> MAX_UINT256 \<and>
        totalStakeAgainst (proposals ?s6 pid) * 10000 \<le> MAX_UINT256"
    using cc cc_returns [of ?s6 pid] nz by blast
  then have ar: "(totalStakeFor (proposals s pid) + (if side then amt else 0)) * 10000 \<le> MAX_UINT256 \<and>
         (totalStakeAgainst (proposals s pid) + (if side then 0 else amt)) * 10000 \<le> MAX_UINT256"
    unfolding t6 .
  from pre stake_arith [OF st] led ar show ?thesis by blast
qed

lemma stake_keeps_cooldown:
  assumes "stake s e pid amt side = Inr s'"
  shows "cooldownUntil (agents s' a) = cooldownUntil (agents s a)"
  using stake_Inr_fields(3) [OF assms] by simp

section \<open>The concrete deployment, state by state\<close>

text \<open>
  The named addresses and identifiers are pairwise different, and each named state of the
  deployment is written out, every one computed from the state before it.
\<close>

lemma names_distinct:
  "mo \<noteq> vox" "mo \<noteq> degen" "mo \<noteq> stranger" "mo \<noteq> admin"
  "mo \<noteq> consensus" "mo \<noteq> venue" "mo \<noteq> targetToken" "vox \<noteq> mo"
  "vox \<noteq> degen" "vox \<noteq> stranger" "vox \<noteq> admin" "vox \<noteq> consensus"
  "vox \<noteq> venue" "vox \<noteq> targetToken" "degen \<noteq> mo" "degen \<noteq> vox"
  "degen \<noteq> stranger" "degen \<noteq> admin" "degen \<noteq> consensus" "degen \<noteq> venue"
  "degen \<noteq> targetToken" "stranger \<noteq> mo" "stranger \<noteq> vox" "stranger \<noteq> degen"
  "stranger \<noteq> admin" "stranger \<noteq> consensus" "stranger \<noteq> venue" "stranger \<noteq> targetToken"
  "admin \<noteq> mo" "admin \<noteq> vox" "admin \<noteq> degen" "admin \<noteq> stranger"
  "admin \<noteq> consensus" "admin \<noteq> venue" "admin \<noteq> targetToken" "consensus \<noteq> mo"
  "consensus \<noteq> vox" "consensus \<noteq> degen" "consensus \<noteq> stranger" "consensus \<noteq> admin"
  "consensus \<noteq> venue" "consensus \<noteq> targetToken" "venue \<noteq> mo" "venue \<noteq> vox"
  "venue \<noteq> degen" "venue \<noteq> stranger" "venue \<noteq> admin" "venue \<noteq> consensus"
  "venue \<noteq> targetToken" "targetToken \<noteq> mo" "targetToken \<noteq> vox" "targetToken \<noteq> degen"
  "targetToken \<noteq> stranger" "targetToken \<noteq> admin" "targetToken \<noteq> consensus" "targetToken \<noteq> venue"
  "mo \<noteq> 0" "0 \<noteq> mo" "vox \<noteq> 0" "0 \<noteq> vox"
  "degen \<noteq> 0" "0 \<noteq> degen" "stranger \<noteq> 0" "0 \<noteq> stranger"
  "admin \<noteq> 0" "0 \<noteq> admin" "consensus \<noteq> 0" "0 \<noteq> consensus"
  "venue \<noteq> 0" "0 \<noteq> venue" "targetToken \<noteq> 0" "0 \<noteq> targetToken"
  by (simp_all add: mo_def vox_def degen_def stranger_def admin_def consensus_def venue_def
      targetToken_def)

lemma ids_distinct:
  "P \<noteq> Q" "Q \<noteq> P" "P \<noteq> R" "R \<noteq> P" "Q \<noteq> R" "R \<noteq> Q"
  by (simp_all add: P_def Q_def R_def example_hash_def mo_def degen_def targetToken_def)

lemma ids_fold:
  "example_hash targetToken Long 1000 mo = P"
  "example_hash targetToken Short 1000 degen = Q"
  "example_hash targetToken Short 1050 degen = R"
  by (simp_all add: P_def Q_def R_def)

lemmas model_defs = createProposal_def stake_def claimRewards_def claimRewards_settle_def
  expireProposal_def checkConsensus_internal_def registerAgent_def setVault_def renounceOwnership_def
  transferFrom_def transfer_def approve_def transfer_internal_def approve_internal_def
  removeFromActive_internal_def removeFromActive_loop.simps
  emit_def checked_add_def checked_mul_def checked_sub_def MAX_UINT256_def Let_def
  QUORUM_BPS_def PROPOSAL_TIMEOUT_def COOLDOWN_PERIOD_def SLASH_BPS_def REWARD_BPS_def
  run_def step_def constructor_def at_def names_distinct ids_distinct ids_fold

lemma world_eq:
  "world =
       \<lparr>vault = venue, owner = admin,
          proposals =
            \<lambda>p. \<lparr>proposal_id = 0, token = 0, direction = Long, createdAt = 0,
                   expiresAt = 0, totalStakeFor = 0, totalStakeAgainst = 0,
                   status = Pending, creator = 0\<rparr>,
          stakes = \<lambda>p a. \<lparr>amount = 0, isFor = False, claimed = False\<rparr>,
          proposalStakers = \<lambda>p. [],
          agents =
            (\<lambda>a. \<lparr>registered = False, totalStaked = 0, wins = 0, losses = 0,
                    cooldownUntil = 0\<rparr>)
            (mo :=
               \<lparr>registered = True, totalStaked = 0, wins = 0, losses = 0,
                  cooldownUntil = 0\<rparr>,
               vox :=
                 \<lparr>registered = True, totalStaked = 0, wins = 0, losses = 0,
                    cooldownUntil = 0\<rparr>,
               degen :=
                 \<lparr>registered = True, totalStaked = 0, wins = 0, losses = 0,
                    cooldownUntil = 0\<rparr>),
          activeProposalIds = [], allProposalIds = [],
          balances = \<lambda>a. if a = mo \<or> a = vox \<or> a = degen then 100000 else 0,
          allowances = \<lambda>a b. if b = consensus then MAX_UINT256 else 0,
          events =
            [AgentRegistered mo, AgentRegistered vox, AgentRegistered degen]\<rparr>"
  by (simp add: world_def model_defs)

lemma created_eq:
  "created =
       \<lparr>vault = venue, owner = admin,
          proposals =
            (\<lambda>p. \<lparr>proposal_id = 0, token = 0, direction = Long, createdAt = 0,
                    expiresAt = 0, totalStakeFor = 0, totalStakeAgainst = 0,
                    status = Pending, creator = 0\<rparr>)
            (P := \<lparr>proposal_id = P, token = targetToken, direction = Long,
                     createdAt = 1000, expiresAt = 1030, totalStakeFor = 10000,
                     totalStakeAgainst = 0, status = Pending, creator = mo\<rparr>),
          stakes =
            (\<lambda>p a. \<lparr>amount = 0, isFor = False, claimed = False\<rparr>)
            (P := (\<lambda>a. \<lparr>amount = 0, isFor = False, claimed = False\<rparr>)
               (mo := \<lparr>amount = 10000, isFor = True, claimed = False\<rparr>)),
          proposalStakers = (\<lambda>p. [])(P := [mo]),
          agents =
            (\<lambda>a. \<lparr>registered = False, totalStaked = 0, wins = 0, losses = 0,
                    cooldownUntil = 0\<rparr>)
            (vox :=
               \<lparr>registered = True, totalStaked = 0, wins = 0, losses = 0,
                  cooldownUntil = 0\<rparr>,
               degen :=
                 \<lparr>registered = True, totalStaked = 0, wins = 0, losses = 0,
                    cooldownUntil = 0\<rparr>,
               mo :=
                 \<lparr>registered = True, totalStaked = 10000, wins = 0, losses = 0,
                    cooldownUntil = 0\<rparr>),
          activeProposalIds = [P], allProposalIds = [P],
          balances =
            (\<lambda>a. if a = mo \<or> a = vox \<or> a = degen then 100000 else 0)
            (mo := 90000, consensus := 10000),
          allowances = \<lambda>a b. if b = consensus then MAX_UINT256 else 0,
          events =
            [AgentRegistered mo, AgentRegistered vox, AgentRegistered degen,
             Transfer mo consensus 10000,
             ProposalCreated P targetToken Long mo,
             StakePlaced P mo 10000 True]\<rparr>"
  by (simp add: created_def world_eq model_defs)

lemma scenarioA_eq:
  "scenarioA =
       \<lparr>vault = venue, owner = admin,
          proposals =
            (\<lambda>p. \<lparr>proposal_id = 0, token = 0, direction = Long, createdAt = 0,
                    expiresAt = 0, totalStakeFor = 0, totalStakeAgainst = 0,
                    status = Pending, creator = 0\<rparr>)
            (P := \<lparr>proposal_id = P, token = targetToken, direction = Long,
                     createdAt = 1000, expiresAt = 1030, totalStakeFor = 30000,
                     totalStakeAgainst = 0, status = Executed, creator = mo\<rparr>),
          stakes =
            (\<lambda>p a. \<lparr>amount = 0, isFor = False, claimed = False\<rparr>)
            (P := (\<lambda>a. \<lparr>amount = 0, isFor = False, claimed = False\<rparr>)
               (mo := \<lparr>amount = 10000, isFor = True, claimed = False\<rparr>,
                  vox := \<lparr>amount = 20000, isFor = True, claimed = False\<rparr>)),
          proposalStakers = (\<lambda>p. [])(P := [mo, vox]),
          agents =
            (\<lambda>a. \<lparr>registered = False, totalStaked = 0, wins = 0, losses = 0,
                    cooldownUntil = 0\<rparr>)
            (degen :=
               \<lparr>registered = True, totalStaked = 0, wins = 0, losses = 0,
                  cooldownUntil = 0\<rparr>,
               mo :=
                 \<lparr>registered = True, totalStaked = 10000, wins = 0, losses = 0,
                    cooldownUntil = 0\<rparr>,
               vox :=
                 \<lparr>registered = True, totalStaked = 20000, wins = 0, losses = 0,
                    cooldownUntil = 0\<rparr>),
          activeProposalIds = [], allProposalIds = [P],
          balances =
            (\<lambda>a. if a = mo \<or> a = vox \<or> a = degen then 100000 else 0)
            (mo := 90000, vox := 80000, consensus := 30000),
          allowances = \<lambda>a b. if b = consensus then MAX_UINT256 else 0,
          events =
            [AgentRegistered mo, AgentRegistered vox, AgentRegistered degen,
             Transfer mo consensus 10000,
             ProposalCreated P targetToken Long mo,
             StakePlaced P mo 10000 True, Transfer vox consensus 20000,
             StakePlaced P vox 20000 True, ConsensusReached P Long 30000]\<rparr>"
  by (simp add: scenarioA_def created_eq model_defs)

lemma scenarioB_eq:
  "scenarioB =
       \<lparr>vault = venue, owner = admin,
          proposals =
            (\<lambda>p. \<lparr>proposal_id = 0, token = 0, direction = Long, createdAt = 0,
                    expiresAt = 0, totalStakeFor = 0, totalStakeAgainst = 0,
                    status = Pending, creator = 0\<rparr>)
            (P := \<lparr>proposal_id = P, token = targetToken, direction = Long,
                     createdAt = 1000, expiresAt = 1030, totalStakeFor = 10000,
                     totalStakeAgainst = 25000, status = Rejected,
                     creator = mo\<rparr>),
          stakes =
            (\<lambda>p a. \<lparr>amount = 0, isFor = False, claimed = False\<rparr>)
            (P := (\<lambda>a. \<lparr>amount = 0, isFor = False, claimed = False\<rparr>)
               (mo := \<lparr>amount = 10000, isFor = True, claimed = False\<rparr>,
                  vox := \<lparr>amount = 25000, isFor = False, claimed = False\<rparr>)),
          proposalStakers = (\<lambda>p. [])(P := [mo, vox]),
          agents =
            (\<lambda>a. \<lparr>registered = False, totalStaked = 0, wins = 0, losses = 0,
                    cooldownUntil = 0\<rparr>)
            (degen :=
               \<lparr>registered = True, totalStaked = 0, wins = 0, losses = 0,
                  cooldownUntil = 0\<rparr>,
               mo :=
                 \<lparr>registered = True, totalStaked = 10000, wins = 0, losses = 0,
                    cooldownUntil = 0\<rparr>,
               vox :=
                 \<lparr>registered = True, totalStaked = 25000, wins = 0, losses = 0,
                    cooldownUntil = 0\<rparr>),
          activeProposalIds = [], allProposalIds = [P],
          balances =
            (\<lambda>a. if a = mo \<or> a = vox \<or> a = degen then 100000 else 0)
            (mo := 90000, vox := 75000, consensus := 35000),
          allowances = \<lambda>a b. if b = consensus then MAX_UINT256 else 0,
          events =
            [AgentRegistered mo, AgentRegistered vox, AgentRegistered degen,
             Transfer mo consensus 10000,
             ProposalCreated P targetToken Long mo,
             StakePlaced P mo 10000 True, Transfer vox consensus 25000,
             StakePlaced P vox 25000 False, ProposalRejected P]\<rparr>"
  by (simp add: scenarioB_def created_eq model_defs)

lemma scenarioC_eq:
  "scenarioC =
       \<lparr>vault = venue, owner = admin,
          proposals =
            (\<lambda>p. \<lparr>proposal_id = 0, token = 0, direction = Long, createdAt = 0,
                    expiresAt = 0, totalStakeFor = 0, totalStakeAgainst = 0,
                    status = Pending, creator = 0\<rparr>)
            (P := \<lparr>proposal_id = P, token = targetToken, direction = Long,
                     createdAt = 1000, expiresAt = 1030, totalStakeFor = 10000,
                     totalStakeAgainst = 10000, status = Pending,
                     creator = mo\<rparr>),
          stakes =
            (\<lambda>p a. \<lparr>amount = 0, isFor = False, claimed = False\<rparr>)
            (P := (\<lambda>a. \<lparr>amount = 0, isFor = False, claimed = False\<rparr>)
               (mo := \<lparr>amount = 10000, isFor = True, claimed = False\<rparr>,
                  vox := \<lparr>amount = 10000, isFor = False, claimed = False\<rparr>)),
          proposalStakers = (\<lambda>p. [])(P := [mo, vox]),
          agents =
            (\<lambda>a. \<lparr>registered = False, totalStaked = 0, wins = 0, losses = 0,
                    cooldownUntil = 0\<rparr>)
            (degen :=
               \<lparr>registered = True, totalStaked = 0, wins = 0, losses = 0,
                  cooldownUntil = 0\<rparr>,
               mo :=
                 \<lparr>registered = True, totalStaked = 10000, wins = 0, losses = 0,
                    cooldownUntil = 0\<rparr>,
               vox :=
                 \<lparr>registered = True, totalStaked = 10000, wins = 0, losses = 0,
                    cooldownUntil = 0\<rparr>),
          activeProposalIds = [P], allProposalIds = [P],
          balances =
            (\<lambda>a. if a = mo \<or> a = vox \<or> a = degen then 100000 else 0)
            (mo := 90000, vox := 90000, consensus := 20000),
          allowances = \<lambda>a b. if b = consensus then MAX_UINT256 else 0,
          events =
            [AgentRegistered mo, AgentRegistered vox, AgentRegistered degen,
             Transfer mo consensus 10000,
             ProposalCreated P targetToken Long mo,
             StakePlaced P mo 10000 True, Transfer vox consensus 10000,
             StakePlaced P vox 10000 False]\<rparr>"
  by (simp add: scenarioC_def created_eq model_defs)

lemma scenarioD_eq:
  "scenarioD =
       \<lparr>vault = venue, owner = admin,
          proposals =
            (\<lambda>p. \<lparr>proposal_id = 0, token = 0, direction = Long, createdAt = 0,
                    expiresAt = 0, totalStakeFor = 0, totalStakeAgainst = 0,
                    status = Pending, creator = 0\<rparr>)
            (P := \<lparr>proposal_id = P, token = targetToken, direction = Long,
                     createdAt = 1000, expiresAt = 1030, totalStakeFor = 10000,
                     totalStakeAgainst = 0, status = Expired, creator = mo\<rparr>),
          stakes =
            (\<lambda>p a. \<lparr>amount = 0, isFor = False, claimed = False\<rparr>)
            (P := (\<lambda>a. \<lparr>amount = 0, isFor = False, claimed = False\<rparr>)
               (mo := \<lparr>amount = 10000, isFor = True, claimed = False\<rparr>)),
          proposalStakers = (\<lambda>p. [])(P := [mo]),
          agents =
            (\<lambda>a. \<lparr>registered = False, totalStaked = 0, wins = 0, losses = 0,
                    cooldownUntil = 0\<rparr>)
            (vox :=
               \<lparr>registered = True, totalStaked = 0, wins = 0, losses = 0,
                  cooldownUntil = 0\<rparr>,
               degen :=
                 \<lparr>registered = True, totalStaked = 0, wins = 0, losses = 0,
                    cooldownUntil = 0\<rparr>,
               mo :=
                 \<lparr>registered = True, totalStaked = 10000, wins = 0, losses = 0,
                    cooldownUntil = 0\<rparr>),
          activeProposalIds = [], allProposalIds = [P],
          balances =
            (\<lambda>a. if a = mo \<or> a = vox \<or> a = degen then 100000 else 0)
            (mo := 90000, consensus := 10000),
          allowances = \<lambda>a b. if b = consensus then MAX_UINT256 else 0,
          events =
            [AgentRegistered mo, AgentRegistered vox, AgentRegistered degen,
             Transfer mo consensus 10000,
             ProposalCreated P targetToken Long mo,
             StakePlaced P mo 10000 True, ProposalExpired P]\<rparr>"
  by (simp add: scenarioD_def created_eq model_defs)

lemma claimedA_eq:
  "claimedA =
       \<lparr>vault = venue, owner = admin,
          proposals =
            (\<lambda>p. \<lparr>proposal_id = 0, token = 0, direction = Long, createdAt = 0,
                    expiresAt = 0, totalStakeFor = 0, totalStakeAgainst = 0,
                    status = Pending, creator = 0\<rparr>)
            (P := \<lparr>proposal_id = P, token = targetToken, direction = Long,
                     createdAt = 1000, expiresAt = 1030, totalStakeFor = 30000,
                     totalStakeAgainst = 0, status = Executed, creator = mo\<rparr>),
          stakes =
            (\<lambda>p a. \<lparr>amount = 0, isFor = False, claimed = False\<rparr>)
            (P := (\<lambda>a. \<lparr>amount = 0, isFor = False, claimed = False\<rparr>)
               (vox := \<lparr>amount = 20000, isFor = True, claimed = False\<rparr>,
                  mo := \<lparr>amount = 10000, isFor = True, claimed = True\<rparr>)),
          proposalStakers = (\<lambda>p. [])(P := [mo, vox]),
          agents =
            (\<lambda>a. \<lparr>registered = False, totalStaked = 0, wins = 0, losses = 0,
                    cooldownUntil = 0\<rparr>)
            (degen :=
               \<lparr>registered = True, totalStaked = 0, wins = 0, losses = 0,
                  cooldownUntil = 0\<rparr>,
               vox :=
                 \<lparr>registered = True, totalStaked = 20000, wins = 0, losses = 0,
                    cooldownUntil = 0\<rparr>,
               mo :=
                 \<lparr>registered = True, totalStaked = 10000, wins = Suc 0,
                    losses = 0, cooldownUntil = 0\<rparr>),
          activeProposalIds = [], allProposalIds = [P],
          balances =
            (\<lambda>a. if a = mo \<or> a = vox \<or> a = degen then 100000 else 0)
            (vox := 80000, consensus := 19500, mo := 100500),
          allowances = \<lambda>a b. if b = consensus then MAX_UINT256 else 0,
          events =
            [AgentRegistered mo, AgentRegistered vox, AgentRegistered degen,
             Transfer mo consensus 10000,
             ProposalCreated P targetToken Long mo,
             StakePlaced P mo 10000 True, Transfer vox consensus 20000,
             StakePlaced P vox 20000 True, ConsensusReached P Long 30000,
             RewardClaimed mo P 10500, Transfer consensus mo 10500]\<rparr>"
  by (simp add: claimedA_def scenarioA_eq model_defs)

lemma claimedB_eq:
  "claimedB =
       \<lparr>vault = venue, owner = admin,
          proposals =
            (\<lambda>p. \<lparr>proposal_id = 0, token = 0, direction = Long, createdAt = 0,
                    expiresAt = 0, totalStakeFor = 0, totalStakeAgainst = 0,
                    status = Pending, creator = 0\<rparr>)
            (P := \<lparr>proposal_id = P, token = targetToken, direction = Long,
                     createdAt = 1000, expiresAt = 1030, totalStakeFor = 10000,
                     totalStakeAgainst = 25000, status = Rejected,
                     creator = mo\<rparr>),
          stakes =
            (\<lambda>p a. \<lparr>amount = 0, isFor = False, claimed = False\<rparr>)
            (P := (\<lambda>a. \<lparr>amount = 0, isFor = False, claimed = False\<rparr>)
               (vox := \<lparr>amount = 25000, isFor = False, claimed = False\<rparr>,
                  mo := \<lparr>amount = 10000, isFor = True, claimed = True\<rparr>)),
          proposalStakers = (\<lambda>p. [])(P := [mo, vox]),
          agents =
            (\<lambda>a. \<lparr>registered = False, totalStaked = 0, wins = 0, losses = 0,
                    cooldownUntil = 0\<rparr>)
            (degen :=
               \<lparr>registered = True, totalStaked = 0, wins = 0, losses = 0,
                  cooldownUntil = 0\<rparr>,
               vox :=
                 \<lparr>registered = True, totalStaked = 25000, wins = 0, losses = 0,
                    cooldownUntil = 0\<rparr>,
               mo :=
                 \<lparr>registered = True, totalStaked = 10000, wins = 0,
                    losses = Suc 0, cooldownUntil = 1100\<rparr>),
          activeProposalIds = [], allProposalIds = [P],
          balances =
            (\<lambda>a. if a = mo \<or> a = vox \<or> a = degen then 100000 else 0)
            (vox := 75000, consensus := 26000, mo := 99000),
          allowances = \<lambda>a b. if b = consensus then MAX_UINT256 else 0,
          events =
            [AgentRegistered mo, AgentRegistered vox, AgentRegistered degen,
             Transfer mo consensus 10000,
             ProposalCreated P targetToken Long mo,
             StakePlaced P mo 10000 True, Transfer vox consensus 25000,
             StakePlaced P vox 25000 False, ProposalRejected P,
             AgentSlashed mo 1000, Transfer consensus mo 9000]\<rparr>"
  by (simp add: claimedB_def scenarioB_eq model_defs)

lemma claimedD_eq:
  "claimedD =
       \<lparr>vault = venue, owner = admin,
          proposals =
            (\<lambda>p. \<lparr>proposal_id = 0, token = 0, direction = Long, createdAt = 0,
                    expiresAt = 0, totalStakeFor = 0, totalStakeAgainst = 0,
                    status = Pending, creator = 0\<rparr>)
            (P := \<lparr>proposal_id = P, token = targetToken, direction = Long,
                     createdAt = 1000, expiresAt = 1030, totalStakeFor = 10000,
                     totalStakeAgainst = 0, status = Expired, creator = mo\<rparr>),
          stakes =
            (\<lambda>p a. \<lparr>amount = 0, isFor = False, claimed = False\<rparr>)
            (P := (\<lambda>a. \<lparr>amount = 0, isFor = False, claimed = False\<rparr>)
               (mo := \<lparr>amount = 10000, isFor = True, claimed = True\<rparr>)),
          proposalStakers = (\<lambda>p. [])(P := [mo]),
          agents =
            (\<lambda>a. \<lparr>registered = False, totalStaked = 0, wins = 0, losses = 0,
                    cooldownUntil = 0\<rparr>)
            (vox :=
               \<lparr>registered = True, totalStaked = 0, wins = 0, losses = 0,
                  cooldownUntil = 0\<rparr>,
               degen :=
                 \<lparr>registered = True, totalStaked = 0, wins = 0, losses = 0,
                    cooldownUntil = 0\<rparr>,
               mo :=
                 \<lparr>registered = True, totalStaked = 10000, wins = 0, losses = 0,
                    cooldownUntil = 0\<rparr>),
          activeProposalIds = [], allProposalIds = [P],
          balances =
            (\<lambda>a. if a = mo \<or> a = vox \<or> a = degen then 100000 else 0)
            (consensus := 0, mo := 100000),
          allowances = \<lambda>a b. if b = consensus then MAX_UINT256 else 0,
          events =
            [AgentRegistered mo, AgentRegistered vox, AgentRegistered degen,
             Transfer mo consensus 10000,
             ProposalCreated P targetToken Long mo,
             StakePlaced P mo 10000 True, ProposalExpired P,
             Transfer consensus mo 10000]\<rparr>"
  by (simp add: claimedD_def scenarioD_eq model_defs)

lemma recreatedA_eq:
  "recreatedA =
       \<lparr>vault = venue, owner = admin,
          proposals =
            (\<lambda>p. \<lparr>proposal_id = 0, token = 0, direction = Long, createdAt = 0,
                    expiresAt = 0, totalStakeFor = 0, totalStakeAgainst = 0,
                    status = Pending, creator = 0\<rparr>)
            (P := \<lparr>proposal_id = P, token = targetToken, direction = Long,
                     createdAt = 1000, expiresAt = 1030, totalStakeFor = 5000,
                     totalStakeAgainst = 0, status = Pending, creator = mo\<rparr>),
          stakes =
            (\<lambda>p a. \<lparr>amount = 0, isFor = False, claimed = False\<rparr>)
            (P := (\<lambda>a. \<lparr>amount = 0, isFor = False, claimed = False\<rparr>)
               (vox := \<lparr>amount = 20000, isFor = True, claimed = False\<rparr>,
                  mo := \<lparr>amount = 5000, isFor = True, claimed = False\<rparr>)),
          proposalStakers = (\<lambda>p. [])(P := [mo, vox, mo]),
          agents =
            (\<lambda>a. \<lparr>registered = False, totalStaked = 0, wins = 0, losses = 0,
                    cooldownUntil = 0\<rparr>)
            (degen :=
               \<lparr>registered = True, totalStaked = 0, wins = 0, losses = 0,
                  cooldownUntil = 0\<rparr>,
               vox :=
                 \<lparr>registered = True, totalStaked = 20000, wins = 0, losses = 0,
                    cooldownUntil = 0\<rparr>,
               mo :=
                 \<lparr>registered = True, totalStaked = 15000, wins = 0, losses = 0,
                    cooldownUntil = 0\<rparr>),
          activeProposalIds = [P], allProposalIds = [P, P],
          balances =
            (\<lambda>a. if a = mo \<or> a = vox \<or> a = degen then 100000 else 0)
            (vox := 80000, mo := 85000, consensus := 35000),
          allowances = \<lambda>a b. if b = consensus then MAX_UINT256 else 0,
          events =
            [AgentRegistered mo, AgentRegistered vox, AgentRegistered degen,
             Transfer mo consensus 10000,
             ProposalCreated P targetToken Long mo,
             StakePlaced P mo 10000 True, Transfer vox consensus 20000,
             StakePlaced P vox 20000 True, ConsensusReached P Long 30000,
             Transfer mo consensus 5000, ProposalCreated P targetToken Long mo,
             StakePlaced P mo 5000 True]\<rparr>"
  by (simp add: recreatedA_def scenarioA_eq model_defs)

lemma recreatedC_eq:
  "recreatedC =
       \<lparr>vault = venue, owner = admin,
          proposals =
            (\<lambda>p. \<lparr>proposal_id = 0, token = 0, direction = Long, createdAt = 0,
                    expiresAt = 0, totalStakeFor = 0, totalStakeAgainst = 0,
                    status = Pending, creator = 0\<rparr>)
            (P := \<lparr>proposal_id = P, token = targetToken, direction = Long,
                     createdAt = 1000, expiresAt = 1030, totalStakeFor = 5000,
                     totalStakeAgainst = 0, status = Pending, creator = mo\<rparr>),
          stakes =
            (\<lambda>p a. \<lparr>amount = 0, isFor = False, claimed = False\<rparr>)
            (P := (\<lambda>a. \<lparr>amount = 0, isFor = False, claimed = False\<rparr>)
               (vox := \<lparr>amount = 10000, isFor = False, claimed = False\<rparr>,
                  mo := \<lparr>amount = 5000, isFor = True, claimed = False\<rparr>)),
          proposalStakers = (\<lambda>p. [])(P := [mo, vox, mo]),
          agents =
            (\<lambda>a. \<lparr>registered = False, totalStaked = 0, wins = 0, losses = 0,
                    cooldownUntil = 0\<rparr>)
            (degen :=
               \<lparr>registered = True, totalStaked = 0, wins = 0, losses = 0,
                  cooldownUntil = 0\<rparr>,
               vox :=
                 \<lparr>registered = True, totalStaked = 10000, wins = 0, losses = 0,
                    cooldownUntil = 0\<rparr>,
               mo :=
                 \<lparr>registered = True, totalStaked = 15000, wins = 0, losses = 0,
                    cooldownUntil = 0\<rparr>),
          activeProposalIds = [P, P], allProposalIds = [P, P],
          balances =
            (\<lambda>a. if a = mo \<or> a = vox \<or> a = degen then 100000 else 0)
            (vox := 90000, mo := 85000, consensus := 25000),
          allowances = \<lambda>a b. if b = consensus then MAX_UINT256 else 0,
          events =
            [AgentRegistered mo, AgentRegistered vox, AgentRegistered degen,
             Transfer mo consensus 10000,
             ProposalCreated P targetToken Long mo,
             StakePlaced P mo 10000 True, Transfer vox consensus 10000,
             StakePlaced P vox 10000 False, Transfer mo consensus 5000,
             ProposalCreated P targetToken Long mo,
             StakePlaced P mo 5000 True]\<rparr>"
  by (simp add: recreatedC_def scenarioC_eq model_defs)

lemma fundedA_eq:
  "fundedA =
       \<lparr>vault = venue, owner = admin,
          proposals =
            (\<lambda>p. \<lparr>proposal_id = 0, token = 0, direction = Long, createdAt = 0,
                    expiresAt = 0, totalStakeFor = 0, totalStakeAgainst = 0,
                    status = Pending, creator = 0\<rparr>)
            (P := \<lparr>proposal_id = P, token = targetToken, direction = Long,
                     createdAt = 1000, expiresAt = 1030, totalStakeFor = 30000,
                     totalStakeAgainst = 0, status = Executed, creator = mo\<rparr>,
               Q := \<lparr>proposal_id = Q, token = targetToken, direction = Short,
                       createdAt = 1000, expiresAt = 1030,
                       totalStakeFor = 10000, totalStakeAgainst = 0,
                       status = Expired, creator = degen\<rparr>),
          stakes =
            (\<lambda>p a. \<lparr>amount = 0, isFor = False, claimed = False\<rparr>)
            (Q := (\<lambda>a. \<lparr>amount = 0, isFor = False, claimed = False\<rparr>)
               (degen := \<lparr>amount = 10000, isFor = True, claimed = False\<rparr>),
               P := (\<lambda>a. \<lparr>amount = 0, isFor = False, claimed = False\<rparr>)
                 (mo := \<lparr>amount = 10000, isFor = True, claimed = True\<rparr>,
                    vox := \<lparr>amount = 20000, isFor = True, claimed = True\<rparr>)),
          proposalStakers = (\<lambda>p. [])(P := [mo, vox], Q := [degen]),
          agents =
            (\<lambda>a. \<lparr>registered = False, totalStaked = 0, wins = 0, losses = 0,
                    cooldownUntil = 0\<rparr>)
            (degen :=
               \<lparr>registered = True, totalStaked = 10000, wins = 0, losses = 0,
                  cooldownUntil = 0\<rparr>,
               mo :=
                 \<lparr>registered = True, totalStaked = 10000, wins = Suc 0,
                    losses = 0, cooldownUntil = 0\<rparr>,
               vox :=
                 \<lparr>registered = True, totalStaked = 20000, wins = Suc 0,
                    losses = 0, cooldownUntil = 0\<rparr>),
          activeProposalIds = [], allProposalIds = [P, Q],
          balances =
            (\<lambda>a. if a = mo \<or> a = vox \<or> a = degen then 100000 else 0)
            (degen := 90000, mo := 100500, consensus := 8500, vox := 101000),
          allowances = \<lambda>a b. if b = consensus then MAX_UINT256 else 0,
          events =
            [AgentRegistered mo, AgentRegistered vox, AgentRegistered degen,
             Transfer mo consensus 10000,
             ProposalCreated P targetToken Long mo,
             StakePlaced P mo 10000 True, Transfer vox consensus 20000,
             StakePlaced P vox 20000 True, ConsensusReached P Long 30000,
             Transfer degen consensus 10000,
             ProposalCreated Q targetToken Short degen,
             StakePlaced Q degen 10000 True, RewardClaimed mo P 10500,
             Transfer consensus mo 10500, RewardClaimed vox P 21000,
             Transfer consensus vox 21000, ProposalExpired Q]\<rparr>"
  by (simp add: fundedA_def scenarioA_eq model_defs)

lemma settledE_eq:
  "settledE =
       \<lparr>vault = venue, owner = admin,
          proposals =
            (\<lambda>p. \<lparr>proposal_id = 0, token = 0, direction = Long, createdAt = 0,
                    expiresAt = 0, totalStakeFor = 0, totalStakeAgainst = 0,
                    status = Pending, creator = 0\<rparr>)
            (P := \<lparr>proposal_id = P, token = targetToken, direction = Long,
                     createdAt = 1000, expiresAt = 1030, totalStakeFor = 20000,
                     totalStakeAgainst = 10000, status = Executed,
                     creator = mo\<rparr>),
          stakes =
            (\<lambda>p a. \<lparr>amount = 0, isFor = False, claimed = False\<rparr>)
            (P := (\<lambda>a. \<lparr>amount = 0, isFor = False, claimed = False\<rparr>)
               (mo := \<lparr>amount = 20000, isFor = True, claimed = True\<rparr>,
                  vox := \<lparr>amount = 10000, isFor = False, claimed = True\<rparr>)),
          proposalStakers = (\<lambda>p. [])(P := [mo, vox]),
          agents =
            (\<lambda>a. \<lparr>registered = False, totalStaked = 0, wins = 0, losses = 0,
                    cooldownUntil = 0\<rparr>)
            (degen :=
               \<lparr>registered = True, totalStaked = 0, wins = 0, losses = 0,
                  cooldownUntil = 0\<rparr>,
               mo :=
                 \<lparr>registered = True, totalStaked = 20000, wins = Suc 0,
                    losses = 0, cooldownUntil = 0\<rparr>,
               vox :=
                 \<lparr>registered = True, totalStaked = 10000, wins = 0,
                    losses = Suc 0, cooldownUntil = 1060\<rparr>),
          activeProposalIds = [], allProposalIds = [P],
          balances =
            (\<lambda>a. if a = mo \<or> a = vox \<or> a = degen then 100000 else 0)
            (mo := 101000, consensus := 0, vox := 99000),
          allowances = \<lambda>a b. if b = consensus then MAX_UINT256 else 0,
          events =
            [AgentRegistered mo, AgentRegistered vox, AgentRegistered degen,
             Transfer mo consensus 20000,
             ProposalCreated P targetToken Long mo,
             StakePlaced P mo 20000 True, Transfer vox consensus 10000,
             StakePlaced P vox 10000 False, ConsensusReached P Long 20000,
             RewardClaimed mo P 21000, Transfer consensus mo 21000,
             AgentSlashed vox 1000, Transfer consensus vox 9000]\<rparr>"
  by (simp add: settledE_def world_eq model_defs)

lemma recreatedE_eq:
  "recreatedE =
       \<lparr>vault = venue, owner = admin,
          proposals =
            (\<lambda>p. \<lparr>proposal_id = 0, token = 0, direction = Long, createdAt = 0,
                    expiresAt = 0, totalStakeFor = 0, totalStakeAgainst = 0,
                    status = Pending, creator = 0\<rparr>)
            (P := \<lparr>proposal_id = P, token = targetToken, direction = Long,
                     createdAt = 1000, expiresAt = 1030, totalStakeFor = 20000,
                     totalStakeAgainst = 0, status = Pending, creator = mo\<rparr>),
          stakes =
            (\<lambda>p a. \<lparr>amount = 0, isFor = False, claimed = False\<rparr>)
            (P := (\<lambda>a. \<lparr>amount = 0, isFor = False, claimed = False\<rparr>)
               (vox := \<lparr>amount = 10000, isFor = False, claimed = True\<rparr>,
                  mo := \<lparr>amount = 20000, isFor = True, claimed = False\<rparr>)),
          proposalStakers = (\<lambda>p. [])(P := [mo, vox, mo]),
          agents =
            (\<lambda>a. \<lparr>registered = False, totalStaked = 0, wins = 0, losses = 0,
                    cooldownUntil = 0\<rparr>)
            (degen :=
               \<lparr>registered = True, totalStaked = 0, wins = 0, losses = 0,
                  cooldownUntil = 0\<rparr>,
               vox :=
                 \<lparr>registered = True, totalStaked = 10000, wins = 0,
                    losses = Suc 0, cooldownUntil = 1060\<rparr>,
               mo :=
                 \<lparr>registered = True, totalStaked = 40000, wins = Suc 0,
                    losses = 0, cooldownUntil = 0\<rparr>),
          activeProposalIds = [P], allProposalIds = [P, P],
          balances =
            (\<lambda>a. if a = mo \<or> a = vox \<or> a = degen then 100000 else 0)
            (vox := 99000, mo := 81000, consensus := 20000),
          allowances = \<lambda>a b. if b = consensus then MAX_UINT256 else 0,
          events =
            [AgentRegistered mo, AgentRegistered vox, AgentRegistered degen,
             Transfer mo consensus 20000,
             ProposalCreated P targetToken Long mo,
             StakePlaced P mo 20000 True, Transfer vox consensus 10000,
             StakePlaced P vox 10000 False, ConsensusReached P Long 20000,
             RewardClaimed mo P 21000, Transfer consensus mo 21000,
             AgentSlashed vox 1000, Transfer consensus vox 9000,
             Transfer mo consensus 20000,
             ProposalCreated P targetToken Long mo,
             StakePlaced P mo 20000 True]\<rparr>"
  by (simp add: recreatedE_def settledE_eq model_defs)

lemma requorumE_eq:
  "requorumE =
       \<lparr>vault = venue, owner = admin,
          proposals =
            (\<lambda>p. \<lparr>proposal_id = 0, token = 0, direction = Long, createdAt = 0,
                    expiresAt = 0, totalStakeFor = 0, totalStakeAgainst = 0,
                    status = Pending, creator = 0\<rparr>)
            (P := \<lparr>proposal_id = P, token = targetToken, direction = Long,
                     createdAt = 1000, expiresAt = 1030, totalStakeFor = 20000,
                     totalStakeAgainst = 10000, status = Executed,
                     creator = mo\<rparr>),
          stakes =
            (\<lambda>p a. \<lparr>amount = 0, isFor = False, claimed = False\<rparr>)
            (P := (\<lambda>a. \<lparr>amount = 0, isFor = False, claimed = False\<rparr>)
               (vox := \<lparr>amount = 10000, isFor = False, claimed = True\<rparr>,
                  mo := \<lparr>amount = 20000, isFor = True, claimed = False\<rparr>,
                  degen := \<lparr>amount = 10000, isFor = False, claimed = False\<rparr>)),
          proposalStakers = (\<lambda>p. [])(P := [mo, vox, mo, degen]),
          agents =
            (\<lambda>a. \<lparr>registered = False, totalStaked = 0, wins = 0, losses = 0,
                    cooldownUntil = 0\<rparr>)
            (vox :=
               \<lparr>registered = True, totalStaked = 10000, wins = 0,
                  losses = Suc 0, cooldownUntil = 1060\<rparr>,
               mo :=
                 \<lparr>registered = True, totalStaked = 40000, wins = Suc 0,
                    losses = 0, cooldownUntil = 0\<rparr>,
               degen :=
                 \<lparr>registered = True, totalStaked = 10000, wins = 0, losses = 0,
                    cooldownUntil = 0\<rparr>),
          activeProposalIds = [], allProposalIds = [P, P],
          balances =
            (\<lambda>a. if a = mo \<or> a = vox \<or> a = degen then 100000 else 0)
            (vox := 99000, mo := 81000, degen := 90000, consensus := 30000),
          allowances = \<lambda>a b. if b = consensus then MAX_UINT256 else 0,
          events =
            [AgentRegistered mo, AgentRegistered vox, AgentRegistered degen,
             Transfer mo consensus 20000,
             ProposalCreated P targetToken Long mo,
             StakePlaced P mo 20000 True, Transfer vox consensus 10000,
             StakePlaced P vox 10000 False, ConsensusReached P Long 20000,
             RewardClaimed mo P 21000, Transfer consensus mo 21000,
             AgentSlashed vox 1000, Transfer consensus vox 9000,
             Transfer mo consensus 20000,
             ProposalCreated P targetToken Long mo,
             StakePlaced P mo 20000 True, Transfer degen consensus 10000,
             StakePlaced P degen 10000 False, ConsensusReached P Long 20000]\<rparr>"
  by (simp add: requorumE_def recreatedE_eq model_defs)

lemma reclaimedE_eq:
  "reclaimedE =
       \<lparr>vault = venue, owner = admin,
          proposals =
            (\<lambda>p. \<lparr>proposal_id = 0, token = 0, direction = Long, createdAt = 0,
                    expiresAt = 0, totalStakeFor = 0, totalStakeAgainst = 0,
                    status = Pending, creator = 0\<rparr>)
            (P := \<lparr>proposal_id = P, token = targetToken, direction = Long,
                     createdAt = 1000, expiresAt = 1030, totalStakeFor = 20000,
                     totalStakeAgainst = 10000, status = Executed,
                     creator = mo\<rparr>),
          stakes =
            (\<lambda>p a. \<lparr>amount = 0, isFor = False, claimed = False\<rparr>)
            (P := (\<lambda>a. \<lparr>amount = 0, isFor = False, claimed = False\<rparr>)
               (vox := \<lparr>amount = 10000, isFor = False, claimed = True\<rparr>,
                  degen := \<lparr>amount = 10000, isFor = False, claimed = False\<rparr>,
                  mo := \<lparr>amount = 20000, isFor = True, claimed = True\<rparr>)),
          proposalStakers = (\<lambda>p. [])(P := [mo, vox, mo, degen]),
          agents =
            (\<lambda>a. \<lparr>registered = False, totalStaked = 0, wins = 0, losses = 0,
                    cooldownUntil = 0\<rparr>)
            (vox :=
               \<lparr>registered = True, totalStaked = 10000, wins = 0,
                  losses = Suc 0, cooldownUntil = 1060\<rparr>,
               degen :=
                 \<lparr>registered = True, totalStaked = 10000, wins = 0, losses = 0,
                    cooldownUntil = 0\<rparr>,
               mo :=
                 \<lparr>registered = True, totalStaked = 40000, wins = Suc (Suc 0),
                    losses = 0, cooldownUntil = 0\<rparr>),
          activeProposalIds = [], allProposalIds = [P, P],
          balances =
            (\<lambda>a. if a = mo \<or> a = vox \<or> a = degen then 100000 else 0)
            (vox := 99000, degen := 90000, consensus := 9000, mo := 102000),
          allowances = \<lambda>a b. if b = consensus then MAX_UINT256 else 0,
          events =
            [AgentRegistered mo, AgentRegistered vox, AgentRegistered degen,
             Transfer mo consensus 20000,
             ProposalCreated P targetToken Long mo,
             StakePlaced P mo 20000 True, Transfer vox consensus 10000,
             StakePlaced P vox 10000 False, ConsensusReached P Long 20000,
             RewardClaimed mo P 21000, Transfer consensus mo 21000,
             AgentSlashed vox 1000, Transfer consensus vox 9000,
             Transfer mo consensus 20000,
             ProposalCreated P targetToken Long mo,
             StakePlaced P mo 20000 True, Transfer degen consensus 10000,
             StakePlaced P degen 10000 False, ConsensusReached P Long 20000,
             RewardClaimed mo P 21000, Transfer consensus mo 21000]\<rparr>"
  by (simp add: reclaimedE_def requorumE_eq model_defs)

lemma otherB_eq:
  "otherB =
       \<lparr>vault = venue, owner = admin,
          proposals =
            (\<lambda>p. \<lparr>proposal_id = 0, token = 0, direction = Long, createdAt = 0,
                    expiresAt = 0, totalStakeFor = 0, totalStakeAgainst = 0,
                    status = Pending, creator = 0\<rparr>)
            (P := \<lparr>proposal_id = P, token = targetToken, direction = Long,
                     createdAt = 1000, expiresAt = 1030, totalStakeFor = 10000,
                     totalStakeAgainst = 25000, status = Rejected,
                     creator = mo\<rparr>,
               R := \<lparr>proposal_id = R, token = targetToken, direction = Short,
                       createdAt = 1050, expiresAt = 1080,
                       totalStakeFor = 10000, totalStakeAgainst = 0,
                       status = Pending, creator = degen\<rparr>),
          stakes =
            (\<lambda>p a. \<lparr>amount = 0, isFor = False, claimed = False\<rparr>)
            (P := (\<lambda>a. \<lparr>amount = 0, isFor = False, claimed = False\<rparr>)
               (vox := \<lparr>amount = 25000, isFor = False, claimed = False\<rparr>,
                  mo := \<lparr>amount = 10000, isFor = True, claimed = True\<rparr>),
               R := (\<lambda>a. \<lparr>amount = 0, isFor = False, claimed = False\<rparr>)
                 (degen := \<lparr>amount = 10000, isFor = True, claimed = False\<rparr>)),
          proposalStakers = (\<lambda>p. [])(P := [mo, vox], R := [degen]),
          agents =
            (\<lambda>a. \<lparr>registered = False, totalStaked = 0, wins = 0, losses = 0,
                    cooldownUntil = 0\<rparr>)
            (vox :=
               \<lparr>registered = True, totalStaked = 25000, wins = 0, losses = 0,
                  cooldownUntil = 0\<rparr>,
               mo :=
                 \<lparr>registered = True, totalStaked = 10000, wins = 0,
                    losses = Suc 0, cooldownUntil = 1100\<rparr>,
               degen :=
                 \<lparr>registered = True, totalStaked = 10000, wins = 0, losses = 0,
                    cooldownUntil = 0\<rparr>),
          activeProposalIds = [R], allProposalIds = [P, R],
          balances =
            (\<lambda>a. if a = mo \<or> a = vox \<or> a = degen then 100000 else 0)
            (vox := 75000, mo := 99000, degen := 90000, consensus := 36000),
          allowances = \<lambda>a b. if b = consensus then MAX_UINT256 else 0,
          events =
            [AgentRegistered mo, AgentRegistered vox, AgentRegistered degen,
             Transfer mo consensus 10000,
             ProposalCreated P targetToken Long mo,
             StakePlaced P mo 10000 True, Transfer vox consensus 25000,
             StakePlaced P vox 25000 False, ProposalRejected P,
             AgentSlashed mo 1000, Transfer consensus mo 9000,
             Transfer degen consensus 10000,
             ProposalCreated R targetToken Short degen,
             StakePlaced R degen 10000 True]\<rparr>"
  by (simp add: otherB_def claimedB_eq model_defs)

lemma cooledB_eq:
  "cooledB =
       \<lparr>vault = venue, owner = admin,
          proposals =
            (\<lambda>p. \<lparr>proposal_id = 0, token = 0, direction = Long, createdAt = 0,
                    expiresAt = 0, totalStakeFor = 0, totalStakeAgainst = 0,
                    status = Pending, creator = 0\<rparr>)
            (P := \<lparr>proposal_id = P, token = targetToken, direction = Long,
                     createdAt = 1000, expiresAt = 1030, totalStakeFor = 10000,
                     totalStakeAgainst = 25000, status = Rejected,
                     creator = mo\<rparr>,
               R := \<lparr>proposal_id = R, token = targetToken, direction = Short,
                       createdAt = 1050, expiresAt = 1080,
                       totalStakeFor = 15000, totalStakeAgainst = 0,
                       status = Executed, creator = degen\<rparr>),
          stakes =
            (\<lambda>p a. \<lparr>amount = 0, isFor = False, claimed = False\<rparr>)
            (P := (\<lambda>a. \<lparr>amount = 0, isFor = False, claimed = False\<rparr>)
               (vox := \<lparr>amount = 25000, isFor = False, claimed = False\<rparr>,
                  mo := \<lparr>amount = 10000, isFor = True, claimed = True\<rparr>),
               R := (\<lambda>a. \<lparr>amount = 0, isFor = False, claimed = False\<rparr>)
                 (degen := \<lparr>amount = 10000, isFor = True, claimed = False\<rparr>,
                    mo := \<lparr>amount = 5000, isFor = True, claimed = False\<rparr>)),
          proposalStakers = (\<lambda>p. [])(P := [mo, vox], R := [degen, mo]),
          agents =
            (\<lambda>a. \<lparr>registered = False, totalStaked = 0, wins = 0, losses = 0,
                    cooldownUntil = 0\<rparr>)
            (vox :=
               \<lparr>registered = True, totalStaked = 25000, wins = 0, losses = 0,
                  cooldownUntil = 0\<rparr>,
               degen :=
                 \<lparr>registered = True, totalStaked = 10000, wins = 0, losses = 0,
                    cooldownUntil = 0\<rparr>,
               mo :=
                 \<lparr>registered = True, totalStaked = 15000, wins = 0,
                    losses = Suc 0, cooldownUntil = 1100\<rparr>),
          activeProposalIds = [], allProposalIds = [P, R],
          balances =
            (\<lambda>a. if a = mo \<or> a = vox \<or> a = degen then 100000 else 0)
            (vox := 75000, degen := 90000, mo := 94000, consensus := 41000),
          allowances = \<lambda>a b. if b = consensus then MAX_UINT256 else 0,
          events =
            [AgentRegistered mo, AgentRegistered vox, AgentRegistered degen,
             Transfer mo consensus 10000,
             ProposalCreated P targetToken Long mo,
             StakePlaced P mo 10000 True, Transfer vox consensus 25000,
             StakePlaced P vox 25000 False, ProposalRejected P,
             AgentSlashed mo 1000, Transfer consensus mo 9000,
             Transfer degen consensus 10000,
             ProposalCreated R targetToken Short degen,
             StakePlaced R degen 10000 True, Transfer mo consensus 5000,
             StakePlaced R mo 5000 True, ConsensusReached R Short 15000]\<rparr>"
  by (simp add: cooledB_def otherB_eq model_defs)

section \<open>Calls on the concrete deployment\<close>

lemma created_run:
  "createProposal example_hash world (at mo 1000) targetToken Long 10000 = Inr (P, created)"
  by (simp add: world_eq created_eq model_defs)

lemma scenario_runs:
  "stake created (at vox 1000) P 20000 True = Inr scenarioA"
  "stake created (at vox 1000) P 25000 False = Inr scenarioB"
  "stake created (at vox 1000) P 10000 False = Inr scenarioC"
  "expireProposal created (at stranger 1031) P = Inr scenarioD"
  by (simp_all add: created_eq scenarioA_eq scenarioB_eq scenarioC_eq scenarioD_eq model_defs)

lemma claim_runs:
  "claimRewards scenarioA (at mo 1040) P = Inr claimedA"
  "claimRewards scenarioB (at mo 1040) P = Inr claimedB"
  "claimRewards scenarioD (at mo 1040) P = Inr claimedD"
  by (simp_all add: scenarioA_eq scenarioB_eq scenarioD_eq claimedA_eq claimedB_eq claimedD_eq
      model_defs)

lemma created_facts:
  "status (proposals created P) = Pending"
  "expiresAt (proposals created P) = 1030"
  "totalStakeFor (proposals created P) = 10000"
  "totalStakeAgainst (proposals created P) = 0"
  "amount (stakes created P mo) = 10000"
  "isFor (stakes created P mo)"
  "registered (agents created mo)"
  "registered (agents created vox)"
  by (simp_all add: created_eq names_distinct)

lemma scenarioA_facts:
  "status (proposals scenarioA P) = Executed"
  "direction (proposals scenarioA P) = Long"
  "token (proposals scenarioA P) = targetToken"
  "totalStakeFor (proposals scenarioA P) = 30000"
  "totalStakeAgainst (proposals scenarioA P) = 0"
  "amount (stakes scenarioA P mo) = 10000"
  "isFor (stakes scenarioA P mo)"
  "registered (agents scenarioA mo)"
  "registered (agents scenarioA degen)"
  "\<not> registered (agents scenarioA stranger)"
  "vault scenarioA = venue"
  "balances scenarioA consensus = 30000"
  by (simp_all add: scenarioA_eq names_distinct)

lemma scenarioB_facts:
  "status (proposals scenarioB P) = Rejected"
  "amount (stakes scenarioB P mo) = 10000"
  "isFor (stakes scenarioB P mo)"
  by (simp_all add: scenarioB_eq names_distinct)

lemma scenarioC_facts:
  "status (proposals scenarioC P) = Pending"
  "totalStakeFor (proposals scenarioC P) = 10000"
  "totalStakeAgainst (proposals scenarioC P) = 10000"
  "amount (stakes scenarioC P mo) = 10000"
  "balances scenarioC consensus = 20000"
  by (simp_all add: scenarioC_eq names_distinct)

lemma scenarioD_facts:
  "status (proposals scenarioD P) = Expired"
  "amount (stakes scenarioD P mo) = 10000"
  "isFor (stakes scenarioD P mo)"
  by (simp_all add: scenarioD_eq names_distinct)

lemma funded_txs:
  "\<forall>tx \<in> set [(at degen 1000, CreateProposal targetToken Short 10000),
      (at mo 1040, ClaimRewards P), (at vox 1040, ClaimRewards P),
      (at stranger 1041, ExpireProposal Q)]. \<not> recreates example_hash P tx"
  by (simp add: at_def ids_fold ids_distinct)

section \<open>The claims\<close>

text \<open>
  C1. Settlement does not conserve the staked value: a winner is paid 5% on top of the
  stake whether or not anything was slashed. Scenario A: 10,000 and 20,000 are staked for, the proposal is Executed, nothing is
  slashed. Mo's claim pays 10,500 and leaves the contract 19,500; Vox's payout is 21,000,
  more than the contract holds, and Vox's claim reverts with InsufficientBalance. With a
  second proposal \<open>Q\<close> holding Degen's 10,000 in the same contract both claims succeed and
  pay 31,500 for the 30,000 staked on \<open>P\<close>; the contract is left with 8,500 and Degen's
  refund of 10,000 on the expired \<open>Q\<close> reverts.
\<close>

theorem C1_settlement_not_conserved:
  "totalStakeFor (proposals scenarioA P) + totalStakeAgainst (proposals scenarioA P) = 30000 \<and>
   balances scenarioA consensus = 30000 \<and>
   claimRewards scenarioA (at mo 1040) P = Inr claimedA \<and>
   last (events claimedA) = Transfer consensus mo 10500 \<and>
   balances claimedA consensus = 19500 \<and>
   claimRewards claimedA (at vox 1040) P = Inl InsufficientBalance \<and>
   filter (\<lambda>ev. case ev of Transfer from to amt \<Rightarrow> from = consensus | _ \<Rightarrow> False) (events fundedA)
     = [Transfer consensus mo 10500, Transfer consensus vox 21000] \<and>
   filter (\<lambda>ev. case ev of AgentSlashed a amt \<Rightarrow> True | _ \<Rightarrow> False) (events fundedA) = [] \<and>
   balances fundedA consensus = 8500 \<and>
   status (proposals fundedA Q) = Expired \<and>
   amount (stakes fundedA Q degen) = 10000 \<and>
   \<not> claimed (stakes fundedA Q degen) \<and>
   claimRewards fundedA (at degen 1042) Q = Inl InsufficientBalance"
proof -
  have a: "last (events claimedA) = Transfer consensus mo 10500"
          "balances claimedA consensus = 19500"
    by (simp_all add: claimedA_eq names_distinct)
  have b: "claimRewards claimedA (at vox 1040) P = Inl InsufficientBalance"
    by (simp add: claimedA_eq model_defs)
  have c: "filter (\<lambda>ev. case ev of Transfer from to amt \<Rightarrow> from = consensus | _ \<Rightarrow> False) (events fundedA)
             = [Transfer consensus mo 10500, Transfer consensus vox 21000]"
          "filter (\<lambda>ev. case ev of AgentSlashed a amt \<Rightarrow> True | _ \<Rightarrow> False) (events fundedA) = []"
          "balances fundedA consensus = 8500"
          "status (proposals fundedA Q) = Expired"
          "amount (stakes fundedA Q degen) = 10000"
          "\<not> claimed (stakes fundedA Q degen)"
    by (simp_all add: fundedA_eq names_distinct ids_distinct)
  have d: "claimRewards fundedA (at degen 1042) Q = Inl InsufficientBalance"
    by (simp add: fundedA_eq model_defs)
  from a b c d scenarioA_facts claim_runs(1) show ?thesis by simp
qed

text \<open>
  C2. The quorum decision: \<open>_checkConsensus\<close> on totals \<open>(f, a)\<close> changes nothing when
  \<open>f + a = 0\<close>; otherwise it sets Executed when \<open>f * 10000 / (f + a) \<ge> 6600\<close>, else Rejected
  when \<open>a * 10000 / (f + a) \<ge> 6600\<close>, else leaves it alone, the for side being tested first;
  it returns whenever the two products fit a uint256; and every successful \<open>stake\<close> ends with
  this decision on the updated totals of the Pending proposal.
\<close>

theorem C2_quorum_decision:
  "(checkConsensus_internal s pid = Inr s1 \<longrightarrow>
      (let f = totalStakeFor (proposals s pid); a = totalStakeAgainst (proposals s pid) in
         totalStakeFor (proposals s1 pid) = f \<and> totalStakeAgainst (proposals s1 pid) = a \<and>
         status (proposals s1 pid) =
           (if f + a = 0 then status (proposals s pid)
            else if 6600 \<le> f * 10000 div (f + a) then Executed
            else if 6600 \<le> a * 10000 div (f + a) then Rejected
            else status (proposals s pid)))) \<and>
   (totalStakeFor (proposals s pid) + totalStakeAgainst (proposals s pid) = 0 \<longrightarrow>
      checkConsensus_internal s pid = Inr s) \<and>
   (totalStakeFor (proposals s pid) * 10000 \<le> MAX_UINT256 \<and>
    totalStakeAgainst (proposals s pid) * 10000 \<le> MAX_UINT256 \<longrightarrow>
      (\<exists>s1. checkConsensus_internal s pid = Inr s1)) \<and>
   (stake s e pid amt side = Inr s2 \<longrightarrow>
      status (proposals s pid) = Pending \<and>
      (let f = totalStakeFor (proposals s2 pid); a = totalStakeAgainst (proposals s2 pid) in
         f = totalStakeFor (proposals s pid) + (if side then amt else 0) \<and>
         a = totalStakeAgainst (proposals s pid) + (if side then 0 else amt) \<and>
         status (proposals s2 pid) =
           (if f + a = 0 then Pending
            else if 6600 \<le> f * 10000 div (f + a) then Executed
            else if 6600 \<le> a * 10000 div (f + a) then Rejected
            else Pending)))"
proof (intro conjI impI)
  assume cc: "checkConsensus_internal s pid = Inr s1"
  show "let f = totalStakeFor (proposals s pid); a = totalStakeAgainst (proposals s pid) in
         totalStakeFor (proposals s1 pid) = f \<and> totalStakeAgainst (proposals s1 pid) = a \<and>
         status (proposals s1 pid) =
           (if f + a = 0 then status (proposals s pid)
            else if 6600 \<le> f * 10000 div (f + a) then Executed
            else if 6600 \<le> a * 10000 div (f + a) then Rejected
            else status (proposals s pid))"
    using cc_status [OF cc] cc_totals [OF cc] by (simp add: Let_def QUORUM_BPS_def)
next
  assume "totalStakeFor (proposals s pid) + totalStakeAgainst (proposals s pid) = 0"
  then show "checkConsensus_internal s pid = Inr s"
    by (simp add: checkConsensus_internal_def checked_add_def)
next
  assume "totalStakeFor (proposals s pid) * 10000 \<le> MAX_UINT256 \<and>
    totalStakeAgainst (proposals s pid) * 10000 \<le> MAX_UINT256"
  then show "\<exists>s1. checkConsensus_internal s pid = Inr s1"
    by (simp add: cc_total)
next
  assume st: "stake s e pid amt side = Inr s2"
  show "status (proposals s pid) = Pending"
    using stake_Inr_pre [OF st] by simp
  have "0 < amt" using stake_Inr_pre [OF st] by simp
  then show "let f = totalStakeFor (proposals s2 pid); a = totalStakeAgainst (proposals s2 pid) in
         f = totalStakeFor (proposals s pid) + (if side then amt else 0) \<and>
         a = totalStakeAgainst (proposals s pid) + (if side then 0 else amt) \<and>
         status (proposals s2 pid) =
           (if f + a = 0 then Pending
            else if 6600 \<le> f * 10000 div (f + a) then Executed
            else if 6600 \<le> a * 10000 div (f + a) then Rejected
            else Pending)"
    using stake_status(1,2,3) [OF st] by (simp add: Let_def QUORUM_BPS_def)
qed

theorem C2_quorum_decision_witness:
  "stake created (at vox 1000) P 10000 False = Inr scenarioC \<and>
   totalStakeFor (proposals scenarioC P) = 10000 \<and>
   totalStakeAgainst (proposals scenarioC P) = 10000 \<and>
   status (proposals scenarioC P) = Pending \<and>
   (\<exists>s1. checkConsensus_internal created P = Inr s1 \<and> status (proposals s1 P) = Executed)"
proof -
  note c2 = C2_quorum_decision [of created P _ "at vox 1000" 10000 False scenarioC]
  have a: "totalStakeFor (proposals scenarioC P) = 10000 \<and>
           totalStakeAgainst (proposals scenarioC P) = 10000 \<and>
           status (proposals scenarioC P) = Pending"
    using c2 scenario_runs(3) created_facts by (simp add: Let_def)
  have "\<exists>s1. checkConsensus_internal created P = Inr s1"
    using c2 created_facts by (simp add: MAX_UINT256_def)
  then obtain s1 where s1: "checkConsensus_internal created P = Inr s1" by blast
  have "status (proposals s1 P) = Executed"
    using C2_quorum_decision [of created P s1 "at vox 1000" 10000 False scenarioC] s1 created_facts
    by (simp add: Let_def)
  with a s1 scenario_runs(3) show ?thesis by blast
qed

text \<open>
  C3. A successful claim on a finalized proposal by a staker with amount \<open>a\<close> transfers, as
  its last effect, \<open>a + a * 500 / 10000\<close> to a winner (Executed and for, or Rejected and
  against) and increments the win count; transfers exactly \<open>a\<close> when the proposal is Expired,
  leaving the agent record as it was; and otherwise transfers \<open>a - a * 1000 / 10000\<close> and
  increments the loss count. The claim succeeds whenever the proposal is finalized, the
  stake is unclaimed, the arithmetic fits a uint256 and the contract holds the payout. A
  stake of 10,000 pays 10,500 to a winner, 9,000 to a loser and 10,000 on expiry.
\<close>

theorem C3_claim_payouts:
  "(claimRewards s e pid = Inr s' \<longrightarrow>
     (let a = amount (stakes s pid (sender e));
          st = status (proposals s pid);
          side = isFor (stakes s pid (sender e));
          before = agents s (sender e);
          after = agents s' (sender e);
          payout = (if (st = Executed \<and> side) \<or> (st = Rejected \<and> \<not> side)
                    then a + a * 500 div 10000
                    else if st = Expired then a
                    else a - a * 1000 div 10000)
      in st \<noteq> Pending \<and> 0 < a \<and>
         last (events s') = Transfer (this e) (sender e) payout \<and>
         (sender e \<noteq> this e \<longrightarrow>
            balances s' (sender e) = (balances s (sender e) + payout) mod 2 ^ 256 \<and>
            balances s' (this e) = balances s (this e) - payout) \<and>
         (if (st = Executed \<and> side) \<or> (st = Rejected \<and> \<not> side)
          then wins after = wins before + 1 \<and> losses after = losses before \<and>
               cooldownUntil after = cooldownUntil before
          else if st = Expired then after = before
          else losses after = losses before + 1 \<and> wins after = wins before))) \<and>
   (status (proposals s pid) \<noteq> Pending \<and>
    0 < amount (stakes s pid (sender e)) \<and>
    \<not> claimed (stakes s pid (sender e)) \<and>
    amount (stakes s pid (sender e)) * 1000 \<le> MAX_UINT256 \<and>
    wins (agents s (sender e)) < MAX_UINT256 \<and>
    losses (agents s (sender e)) < MAX_UINT256 \<and>
    timestamp e + 60 \<le> MAX_UINT256 \<and>
    this e \<noteq> 0 \<and> sender e \<noteq> 0 \<and>
    amount (stakes s pid (sender e)) + amount (stakes s pid (sender e)) * 500 div 10000
      \<le> balances s (this e) \<longrightarrow>
      (\<exists>s1. claimRewards s e pid = Inr s1))"
proof (intro conjI impI)
  assume "claimRewards s e pid = Inr s'"
  then show "let a = amount (stakes s pid (sender e));
          st = status (proposals s pid);
          side = isFor (stakes s pid (sender e));
          before = agents s (sender e);
          after = agents s' (sender e);
          payout = (if (st = Executed \<and> side) \<or> (st = Rejected \<and> \<not> side)
                    then a + a * 500 div 10000
                    else if st = Expired then a
                    else a - a * 1000 div 10000)
      in st \<noteq> Pending \<and> 0 < a \<and>
         last (events s') = Transfer (this e) (sender e) payout \<and>
         (sender e \<noteq> this e \<longrightarrow>
            balances s' (sender e) = (balances s (sender e) + payout) mod 2 ^ 256 \<and>
            balances s' (this e) = balances s (this e) - payout) \<and>
         (if (st = Executed \<and> side) \<or> (st = Rejected \<and> \<not> side)
          then wins after = wins before + 1 \<and> losses after = losses before \<and>
               cooldownUntil after = cooldownUntil before
          else if st = Expired then after = before
          else losses after = losses before + 1 \<and> wins after = wins before)"
    by (rule claim_payouts)
next
  assume "status (proposals s pid) \<noteq> Pending \<and>
    0 < amount (stakes s pid (sender e)) \<and>
    \<not> claimed (stakes s pid (sender e)) \<and>
    amount (stakes s pid (sender e)) * 1000 \<le> MAX_UINT256 \<and>
    wins (agents s (sender e)) < MAX_UINT256 \<and>
    losses (agents s (sender e)) < MAX_UINT256 \<and>
    timestamp e + 60 \<le> MAX_UINT256 \<and>
    this e \<noteq> 0 \<and> sender e \<noteq> 0 \<and>
    amount (stakes s pid (sender e)) + amount (stakes s pid (sender e)) * 500 div 10000
      \<le> balances s (this e)"
  then show "\<exists>s1. claimRewards s e pid = Inr s1"
    by (intro claimRewards_succeeds) simp_all
qed

theorem C3_claim_payouts_witness:
  "claimRewards scenarioA (at mo 1040) P = Inr claimedA \<and>
   last (events claimedA) = Transfer consensus mo 10500 \<and>
   wins (agents claimedA mo) = wins (agents scenarioA mo) + 1 \<and>
   claimRewards scenarioB (at mo 1040) P = Inr claimedB \<and>
   last (events claimedB) = Transfer consensus mo 9000 \<and>
   losses (agents claimedB mo) = losses (agents scenarioB mo) + 1 \<and>
   claimRewards scenarioD (at mo 1040) P = Inr claimedD \<and>
   last (events claimedD) = Transfer consensus mo 10000 \<and>
   agents claimedD mo = agents scenarioD mo \<and>
   (\<exists>s1. claimRewards scenarioA (at vox 1040) P = Inr s1)"
proof -
  have pre: "\<not> claimed (stakes scenarioA P vox)" "amount (stakes scenarioA P vox) = 20000"
    "wins (agents scenarioA vox) = 0" "losses (agents scenarioA vox) = 0"
    by (simp_all add: scenarioA_eq names_distinct)
  have "\<exists>s1. claimRewards scenarioA (at vox 1040) P = Inr s1"
    using C3_claim_payouts [of scenarioA "at vox 1040" P scenarioA] pre scenarioA_facts
    by (simp add: at_def MAX_UINT256_def names_distinct)
  then show ?thesis
    using C3_claim_payouts [of scenarioA "at mo 1040" P claimedA]
      C3_claim_payouts [of scenarioB "at mo 1040" P claimedB]
      C3_claim_payouts [of scenarioD "at mo 1040" P claimedD]
      claim_runs scenarioA_facts scenarioB_facts scenarioD_facts
    by (simp add: Let_def at_def)
qed

text \<open>
  C4. A pair of proposal and participant can be paid twice when the proposal is created
  again. In one block Mo proposes \<open>P\<close> with 20,000, Vox stakes 10,000 against, \<open>P\<close> is Executed
  and both claim; a further claim by Mo fails with AlreadyClaimed. Mo then sends the same
  \<open>createProposal\<close> again: \<open>P\<close> is Pending again and Mo's stake on it is unclaimed. Vox,
  whose stake is still marked claimed, now gets ProposalNotFinalized, and once Degen's
  stake has \<open>P\<close> Executed again, Mo's claim for \<open>(P, Mo)\<close> succeeds a second time and the
  ledger has transferred 21,000 to Mo twice.
\<close>

theorem C4_claim_twice:
  "status (proposals settledE P) = Executed \<and>
   claimed (stakes settledE P mo) \<and> claimed (stakes settledE P vox) \<and>
   claimRewards settledE (at mo 1000) P = Inl AlreadyClaimed \<and>
   filter (\<lambda>ev. ev = Transfer consensus mo 21000) (events settledE) = [Transfer consensus mo 21000] \<and>
   createProposal example_hash settledE (at mo 1000) targetToken Long 20000 = Inr (P, recreatedE) \<and>
   status (proposals recreatedE P) = Pending \<and>
   claimed (stakes recreatedE P vox) \<and>
   claimRewards recreatedE (at vox 1000) P = Inl ProposalNotFinalized \<and>
   stake recreatedE (at degen 1000) P 10000 False = Inr requorumE \<and>
   status (proposals requorumE P) = Executed \<and>
   claimRewards requorumE (at mo 1000) P = Inr reclaimedE \<and>
   filter (\<lambda>ev. ev = Transfer consensus mo 21000) (events reclaimedE)
     = [Transfer consensus mo 21000, Transfer consensus mo 21000]"
proof -
  have a: "status (proposals settledE P) = Executed"
          "claimed (stakes settledE P mo)" "claimed (stakes settledE P vox)"
          "filter (\<lambda>ev. ev = Transfer consensus mo 21000) (events settledE) = [Transfer consensus mo 21000]"
    by (simp_all add: settledE_eq names_distinct)
  have b: "claimRewards settledE (at mo 1000) P = Inl AlreadyClaimed"
    by (simp add: settledE_eq model_defs)
  have c: "createProposal example_hash settledE (at mo 1000) targetToken Long 20000 = Inr (P, recreatedE)"
    by (simp add: settledE_eq recreatedE_eq model_defs)
  have d: "status (proposals recreatedE P) = Pending" "claimed (stakes recreatedE P vox)"
    by (simp_all add: recreatedE_eq names_distinct)
  have e: "claimRewards recreatedE (at vox 1000) P = Inl ProposalNotFinalized"
    by (simp add: recreatedE_eq model_defs)
  have f: "stake recreatedE (at degen 1000) P 10000 False = Inr requorumE"
    by (simp add: recreatedE_eq requorumE_eq model_defs)
  have g: "status (proposals requorumE P) = Executed"
    by (simp add: requorumE_eq)
  have h: "claimRewards requorumE (at mo 1000) P = Inr reclaimedE"
    by (simp add: requorumE_eq reclaimedE_eq model_defs)
  have i: "filter (\<lambda>ev. ev = Transfer consensus mo 21000) (events reclaimedE)
     = [Transfer consensus mo 21000, Transfer consensus mo 21000]"
    by (simp add: reclaimedE_eq names_distinct)
  from a b c d e f g h i show ?thesis by simp
qed

text \<open>
  C5. Once a proposal is not Pending, every \<open>stake\<close> on it is rejected, with
  ProposalNotActive for a registered caller and NotRegisteredAgent otherwise, every
  \<open>expireProposal\<close> on it is rejected with ProposalNotActive, and its record, status and
  totals included, is the same after any sequence of transactions none of which is a
  \<open>createProposal\<close> deriving that proposal's identifier.
\<close>

theorem C5_terminal_frozen:
  assumes "status (proposals s pid) \<noteq> Pending"
  shows "stake s e pid amt side =
           Inl (if registered (agents s (sender e)) then ProposalNotActive else NotRegisteredAgent) \<and>
         expireProposal s e pid = Inl ProposalNotActive \<and>
         ((\<forall>tx \<in> set txs. \<not> recreates H pid tx) \<longrightarrow>
            status (proposals (run H s txs) pid) = status (proposals s pid) \<and>
            totalStakeFor (proposals (run H s txs) pid) = totalStakeFor (proposals s pid) \<and>
            totalStakeAgainst (proposals (run H s txs) pid) = totalStakeAgainst (proposals s pid))"
proof (intro conjI impI)
  show "stake s e pid amt side =
           Inl (if registered (agents s (sender e)) then ProposalNotActive else NotRegisteredAgent)"
    using assms by (simp add: stake_not_active)
  show "expireProposal s e pid = Inl ProposalNotActive"
    using assms by (simp add: expireProposal_def)
next
  assume nr: "\<forall>tx \<in> set txs. \<not> recreates H pid tx"
  have eq: "proposals (run H s txs) pid = proposals s pid"
    using assms nr by (rule run_terminal_frozen)
  show "status (proposals (run H s txs) pid) = status (proposals s pid)"
    using eq by simp
  show "totalStakeFor (proposals (run H s txs) pid) = totalStakeFor (proposals s pid)"
    using eq by simp
  show "totalStakeAgainst (proposals (run H s txs) pid) = totalStakeAgainst (proposals s pid)"
    using eq by simp
qed

theorem C5_terminal_frozen_witness:
  "status (proposals scenarioA P) = Executed \<and>
   stake scenarioA (at degen 1001) P 50000 False = Inl ProposalNotActive \<and>
   expireProposal scenarioA (at degen 1031) P = Inl ProposalNotActive \<and>
   status (proposals fundedA P) = Executed \<and>
   totalStakeFor (proposals fundedA P) = 30000 \<and>
   totalStakeAgainst (proposals fundedA P) = 0"
proof -
  have fin: "status (proposals scenarioA P) \<noteq> Pending"
    by (simp add: scenarioA_facts)
  show ?thesis
    using C5_terminal_frozen [OF fin, of "at degen 1001" 50000 False _ example_hash]
      C5_terminal_frozen [OF fin, of "at degen 1031" 50000 False
        "[(at degen 1000, CreateProposal targetToken Short 10000),
      (at mo 1040, ClaimRewards P), (at vox 1040, ClaimRewards P),
      (at stranger 1041, ExpireProposal Q)]" example_hash] funded_txs scenarioA_facts
    by (simp add: fundedA_def at_def)
qed

theorem C5_counterexample:
  "status (proposals scenarioA P) = Executed \<and>
   stake scenarioA (at stranger 1001) P 5000 True = Inl NotRegisteredAgent \<and>
   exec example_hash scenarioA (at mo 1000) (CreateProposal targetToken Long 5000) = Inr recreatedA \<and>
   status (proposals recreatedA P) = Pending \<and>
   totalStakeFor (proposals scenarioA P) = 30000 \<and>
   totalStakeFor (proposals recreatedA P) = 5000"
proof -
  have a: "stake scenarioA (at stranger 1001) P 5000 True = Inl NotRegisteredAgent"
    by (simp add: scenarioA_eq model_defs)
  have b: "exec example_hash scenarioA (at mo 1000) (CreateProposal targetToken Long 5000) = Inr recreatedA"
    by (simp add: scenarioA_eq recreatedA_eq model_defs)
  have c: "status (proposals recreatedA P) = Pending" "totalStakeFor (proposals recreatedA P) = 5000"
    by (simp_all add: recreatedA_eq)
  from a b c scenarioA_facts show ?thesis by simp
qed

text \<open>
  C6. Right after \<open>createProposal\<close> the new proposal is Pending with
  \<open>now < expiresAt\<close>. Expiry is lazy: a proposal stays Pending when time passes its expiry,
  and from then on every \<open>stake\<close> on it is rejected (ProposalNotActive for a registered
  caller), so its totals no longer move, and \<open>expireProposal\<close> by any caller turns it
  Expired; before the expiry \<open>expireProposal\<close> is rejected with ProposalNotFinalized.
\<close>

theorem C6_lazy_expiry:
  "(createProposal H s0 e0 tok dir initialStake = Inr (pid0, s1) \<longrightarrow>
      status (proposals s1 pid0) = Pending \<and> timestamp e0 < expiresAt (proposals s1 pid0)) \<and>
   (status (proposals s pid) = Pending \<and> expiresAt (proposals s pid) \<le> timestamp e \<longrightarrow>
      stake s e pid amt side =
        Inl (if registered (agents s (sender e)) then ProposalNotActive else NotRegisteredAgent) \<and>
      (\<exists>s'. expireProposal s e pid = Inr s' \<and> status (proposals s' pid) = Expired \<and>
            totalStakeFor (proposals s' pid) = totalStakeFor (proposals s pid) \<and>
            totalStakeAgainst (proposals s' pid) = totalStakeAgainst (proposals s pid))) \<and>
   (status (proposals s pid) = Pending \<and> timestamp e < expiresAt (proposals s pid) \<longrightarrow>
      expireProposal s e pid = Inl ProposalNotFinalized)"
proof (intro conjI impI)
  assume cp: "createProposal H s0 e0 tok dir initialStake = Inr (pid0, s1)"
  from createProposal_Inr_fields(1) [OF cp]
  show "status (proposals s1 pid0) = Pending" by simp
  from createProposal_Inr_fields(1) [OF cp]
  show "timestamp e0 < expiresAt (proposals s1 pid0)" by (simp add: PROPOSAL_TIMEOUT_def)
next
  assume a: "status (proposals s pid) = Pending \<and> expiresAt (proposals s pid) \<le> timestamp e"
  then show "stake s e pid amt side =
        Inl (if registered (agents s (sender e)) then ProposalNotActive else NotRegisteredAgent)"
    by (simp add: stake_not_active)
  from a show "\<exists>s'. expireProposal s e pid = Inr s' \<and> status (proposals s' pid) = Expired \<and>
            totalStakeFor (proposals s' pid) = totalStakeFor (proposals s pid) \<and>
            totalStakeAgainst (proposals s' pid) = totalStakeAgainst (proposals s pid)"
    by (simp add: expireProposal_def Let_def emit_def removeFromActive_internal_def)
next
  assume "status (proposals s pid) = Pending \<and> timestamp e < expiresAt (proposals s pid)"
  then show "expireProposal s e pid = Inl ProposalNotFinalized"
    by (simp add: expireProposal_def)
qed

theorem C6_lazy_expiry_witness:
  "createProposal example_hash world (at mo 1000) targetToken Long 10000 = Inr (P, created) \<and>
   status (proposals created P) = Pending \<and> expiresAt (proposals created P) = 1030 \<and>
   stake created (at vox 1030) P 20000 True = Inl ProposalNotActive \<and>
   (\<exists>s'. expireProposal created (at stranger 1030) P = Inr s' \<and> status (proposals s' P) = Expired) \<and>
   expireProposal created (at stranger 1029) P = Inl ProposalNotFinalized"
proof -
  have a: "stake created (at vox 1030) P 20000 True = Inl ProposalNotActive"
    using C6_lazy_expiry [of example_hash world "at mo 1000" targetToken Long 10000 P created
        created P "at vox 1030" 20000 True] created_run created_facts
    by (simp add: at_def)
  have b: "\<exists>s'. expireProposal created (at stranger 1030) P = Inr s' \<and> status (proposals s' P) = Expired"
    using C6_lazy_expiry [of example_hash world "at mo 1000" targetToken Long 10000 P created
        created P "at stranger 1030" 20000 True] created_run created_facts
    by (auto simp add: at_def)
  have c: "expireProposal created (at stranger 1029) P = Inl ProposalNotFinalized"
    using C6_lazy_expiry [of example_hash world "at mo 1000" targetToken Long 10000 P created
        created P "at stranger 1029" 20000 True] created_run created_facts
    by (simp add: at_def)
  from a b c created_run created_facts show ?thesis by blast
qed

theorem C6_counterexample:
  "status (proposals created P) = Pending \<and>
   expiresAt (proposals created P) = 1030 \<and>
   \<not> (timestamp (at vox 1030) < expiresAt (proposals created P)) \<and>
   step example_hash created (at vox 1030, StakeOn P 20000 True) = created"
proof -
  have "stake created (at vox 1030) P 20000 True = Inl ProposalNotActive"
    by (simp add: created_eq model_defs)
  then have "step example_hash created (at vox 1030, StakeOn P 20000 True) = created"
    by (simp add: step_def)
  with created_facts show ?thesis by (simp add: at_def)
qed

text \<open>
  C7. A proposal becomes Executed only in a \<open>stake\<close> on it, whatever its
  direction, Hold included; the last thing that transaction does is to emit
  \<open>ConsensusReached(proposalId, direction, totalStakeFor)\<close>, an event of three fields without
  the token. The vault is not called, and the outcome of \<open>_checkConsensus\<close> is the same
  whatever the vault address is.
\<close>

theorem C7_consensus_event:
  "(exec H s e c = Inr s' \<and> status (proposals s pid) \<noteq> Executed \<and>
      status (proposals s' pid) = Executed \<longrightarrow>
        (\<exists>amt side. c = StakeOn pid amt side) \<and>
        last (events s') = ConsensusReached pid (direction (proposals s' pid))
                             (totalStakeFor (proposals s' pid)) \<and>
        payload (last (events s')) =
          [Bytes32Field pid, DirectionField (direction (proposals s' pid)),
           UintField (totalStakeFor (proposals s' pid))]) \<and>
   checkConsensus_internal (s\<lparr>vault := v\<rparr>) pid =
     (case checkConsensus_internal s pid of Inl err \<Rightarrow> Inl err | Inr t \<Rightarrow> Inr (t\<lparr>vault := v\<rparr>))"
proof (intro conjI impI)
  assume a: "exec H s e c = Inr s' \<and> status (proposals s pid) \<noteq> Executed \<and>
      status (proposals s' pid) = Executed"
  then have r: "(\<exists>amt side. c = StakeOn pid amt side) \<and>
         last (events s') = ConsensusReached pid (direction (proposals s' pid))
                              (totalStakeFor (proposals s' pid))"
    using exec_to_Executed [of H s e c s' pid] by blast
  from r show "\<exists>amt side. c = StakeOn pid amt side" by simp
  from r show "last (events s') = ConsensusReached pid (direction (proposals s' pid))
                             (totalStakeFor (proposals s' pid))" by simp
  from r show "payload (last (events s')) =
          [Bytes32Field pid, DirectionField (direction (proposals s' pid)),
           UintField (totalStakeFor (proposals s' pid))]" by simp
next
  show "checkConsensus_internal (s\<lparr>vault := v\<rparr>) pid =
     (case checkConsensus_internal s pid of Inl err \<Rightarrow> Inl err | Inr t \<Rightarrow> Inr (t\<lparr>vault := v\<rparr>))"
    by (rule cc_vault)
qed

theorem C7_consensus_event_witness:
  "exec example_hash created (at vox 1000) (StakeOn P 20000 True) = Inr scenarioA \<and>
   status (proposals created P) = Pending \<and> status (proposals scenarioA P) = Executed \<and>
   last (events scenarioA) = ConsensusReached P Long 30000 \<and>
   payload (last (events scenarioA)) = [Bytes32Field P, DirectionField Long, UintField 30000]"
  using C7_consensus_event [of example_hash created "at vox 1000" "StakeOn P 20000 True" scenarioA P]
    scenario_runs(1) created_facts scenarioA_facts
  by simp

theorem C7_counterexample:
  "exec example_hash created (at vox 1000) (StakeOn P 20000 True) = Inr scenarioA \<and>
   status (proposals scenarioA P) = Executed \<and>
   direction (proposals scenarioA P) = Long \<and>
   token (proposals scenarioA P) = targetToken \<and>
   vault scenarioA = venue \<and>
   emitted created scenarioA =
     [Transfer vox consensus 20000, StakePlaced P vox 20000 True, ConsensusReached P Long 30000] \<and>
   \<not> list_ex (\<lambda>ev. AddressField targetToken \<in> set (payload ev)) (emitted created scenarioA)"
proof -
  have em: "emitted created scenarioA =
     [Transfer vox consensus 20000, StakePlaced P vox 20000 True, ConsensusReached P Long 30000]"
    by (simp add: emitted_def created_eq scenarioA_eq)
  have "\<not> list_ex (\<lambda>ev. AddressField targetToken \<in> set (payload ev)) (emitted created scenarioA)"
    by (simp add: em names_distinct)
  with em scenario_runs(1) scenarioA_facts show ?thesis by simp
qed

text \<open>
  C8. A repeated \<open>createProposal\<close> overwrites the proposal. Two \<open>createProposal\<close> calls by Mo with the same token and direction in one block
  derive the same identifier \<open>P\<close>. The second call succeeds and overwrites the record: the
  totals 10,000 for and 10,000 against become 5,000 and 0, Mo's stake of 10,000 becomes
  5,000, Vox's stake is no longer in the totals, the contract holds 25,000 against a
  recorded 5,000, and \<open>P\<close> is in the active list twice.
\<close>

theorem C8_recreate_overwrites:
  "createProposal example_hash world (at mo 1000) targetToken Long 10000 = Inr (P, created) \<and>
   stake created (at vox 1000) P 10000 False = Inr scenarioC \<and>
   status (proposals scenarioC P) = Pending \<and>
   totalStakeFor (proposals scenarioC P) = 10000 \<and>
   totalStakeAgainst (proposals scenarioC P) = 10000 \<and>
   amount (stakes scenarioC P mo) = 10000 \<and>
   balances scenarioC consensus = 20000 \<and>
   createProposal example_hash scenarioC (at mo 1000) targetToken Long 5000 = Inr (P, recreatedC) \<and>
   totalStakeFor (proposals recreatedC P) = 5000 \<and>
   totalStakeAgainst (proposals recreatedC P) = 0 \<and>
   amount (stakes recreatedC P mo) = 5000 \<and>
   amount (stakes recreatedC P vox) = 10000 \<and>
   balances recreatedC consensus = 25000 \<and>
   activeProposalIds recreatedC = [P, P]"
proof -
  have a: "createProposal example_hash scenarioC (at mo 1000) targetToken Long 5000 = Inr (P, recreatedC)"
    by (simp add: scenarioC_eq recreatedC_eq model_defs)
  have b: "totalStakeFor (proposals recreatedC P) = 5000"
          "totalStakeAgainst (proposals recreatedC P) = 0"
          "amount (stakes recreatedC P mo) = 5000"
          "amount (stakes recreatedC P vox) = 10000"
          "balances recreatedC consensus = 25000"
          "activeProposalIds recreatedC = [P, P]"
    by (simp_all add: recreatedC_eq names_distinct)
  from a b created_run scenario_runs(3) scenarioC_facts show ?thesis by simp
qed

lemma otherB_facts:
  "registered (agents otherB mo)"
  "cooldownUntil (agents otherB mo) = 1100"
  "totalStaked (agents otherB mo) = 10000"
  "creator (proposals otherB R) = degen"
  "status (proposals otherB R) = Pending"
  "expiresAt (proposals otherB R) = 1080"
  "totalStakeFor (proposals otherB R) = 10000"
  "totalStakeAgainst (proposals otherB R) = 0"
  "amount (stakes otherB R mo) = 0"
  "balances otherB mo = 99000"
  "allowances otherB mo consensus = MAX_UINT256"
  by (simp_all add: otherB_eq names_distinct ids_distinct)

text \<open>
  C9. A successful claim by a loser sets the agent's \<open>cooldownUntil\<close> to the claim's time plus
  60; \<open>createProposal\<close> fails with AgentOnCooldown exactly when the caller is a registered
  agent and \<open>now < cooldownUntil\<close>, so a call at \<open>now \<ge> cooldownUntil\<close> is not blocked by
  cooldown. Cooldown does not gate staking: \<open>stake\<close> is accepted exactly when the caller is a
  registered agent, the proposal is Pending and unexpired, the caller has no stake on it,
  the amount is positive, the sums fit a uint256 and the ledger can move the amount, whatever
  the caller's \<open>cooldownUntil\<close> is; an accepted stake records the amount and side and leaves
  every \<open>cooldownUntil\<close> as it was; and \<open>stake\<close> never fails with AgentOnCooldown. Whoever
  placed a stake was a registered agent, and stays one through every sequence of
  transactions.
\<close>

theorem C9_cooldown:
  "(claimRewards s e pid = Inr s' \<and> status (proposals s pid) \<noteq> Expired \<and>
      \<not> ((status (proposals s pid) = Executed \<and> isFor (stakes s pid (sender e))) \<or>
         (status (proposals s pid) = Rejected \<and> \<not> isFor (stakes s pid (sender e)))) \<longrightarrow>
      cooldownUntil (agents s' (sender e)) = timestamp e + 60) \<and>
   ((createProposal H s1 e1 tok dir initialStake = Inl AgentOnCooldown) =
      (registered (agents s1 (sender e1)) \<and> timestamp e1 < cooldownUntil (agents s1 (sender e1)))) \<and>
   stake s2 e2 pid2 amt side \<noteq> Inl AgentOnCooldown \<and>
   ((\<exists>t. stake s2 e2 pid2 amt side = Inr t) =
      (registered (agents s2 (sender e2)) \<and> status (proposals s2 pid2) = Pending \<and>
       timestamp e2 < expiresAt (proposals s2 pid2) \<and>
       amount (stakes s2 pid2 (sender e2)) = 0 \<and> 0 < amt \<and>
       totalStaked (agents s2 (sender e2)) + amt \<le> MAX_UINT256 \<and>
       (totalStakeFor (proposals s2 pid2) + (if side then amt else 0)) * 10000 \<le> MAX_UINT256 \<and>
       (totalStakeAgainst (proposals s2 pid2) + (if side then 0 else amt)) * 10000 \<le> MAX_UINT256 \<and>
       sender e2 \<noteq> 0 \<and> this e2 \<noteq> 0 \<and> amt \<le> balances s2 (sender e2) \<and>
       (allowances s2 (sender e2) (this e2) = MAX_UINT256 \<or>
        amt \<le> allowances s2 (sender e2) (this e2)))) \<and>
   (stake s2 e2 pid2 amt side = Inr s3 \<longrightarrow>
      registered (agents s3 (sender e2)) \<and>
      amount (stakes s3 pid2 (sender e2)) = amt \<and>
      isFor (stakes s3 pid2 (sender e2)) = side \<and>
      cooldownUntil (agents s3 b) = cooldownUntil (agents s2 b)) \<and>
   (createProposal H s1 e1 tok dir initialStake = Inr (pid1, s4) \<longrightarrow>
      registered (agents s4 (sender e1))) \<and>
   (registered (agents s5 a) \<longrightarrow> registered (agents (run H s5 txs) a))"
proof (intro conjI impI)
  assume a: "claimRewards s e pid = Inr s' \<and> status (proposals s pid) \<noteq> Expired \<and>
      \<not> ((status (proposals s pid) = Executed \<and> isFor (stakes s pid (sender e))) \<or>
         (status (proposals s pid) = Rejected \<and> \<not> isFor (stakes s pid (sender e))))"
  from a claimRewards_paid [of s e pid s'] obtain s1 p where
    st: "claimRewards_settle s e pid = Inr (s1, p)" and ag: "agents s' = agents s1"
    by blast
  from a have nw: "\<not> ((status (proposals s pid) = Executed \<and> isFor (stakes s pid (sender e))) \<or>
         (status (proposals s pid) = Rejected \<and> \<not> isFor (stakes s pid (sender e))))"
    and ne: "status (proposals s pid) \<noteq> Expired" by blast+
  from settle_loser [OF st nw ne] ag
  show "cooldownUntil (agents s' (sender e)) = timestamp e + 60"
    by (simp add: COOLDOWN_PERIOD_def)
next
  show "(createProposal H s1 e1 tok dir initialStake = Inl AgentOnCooldown) =
      (registered (agents s1 (sender e1)) \<and> timestamp e1 < cooldownUntil (agents s1 (sender e1)))"
    by (rule createProposal_cooldown)
next
  show "stake s2 e2 pid2 amt side \<noteq> Inl AgentOnCooldown"
    by (rule stake_never_cooldown)
next
  show "(\<exists>t. stake s2 e2 pid2 amt side = Inr t) =
      (registered (agents s2 (sender e2)) \<and> status (proposals s2 pid2) = Pending \<and>
       timestamp e2 < expiresAt (proposals s2 pid2) \<and>
       amount (stakes s2 pid2 (sender e2)) = 0 \<and> 0 < amt \<and>
       totalStaked (agents s2 (sender e2)) + amt \<le> MAX_UINT256 \<and>
       (totalStakeFor (proposals s2 pid2) + (if side then amt else 0)) * 10000 \<le> MAX_UINT256 \<and>
       (totalStakeAgainst (proposals s2 pid2) + (if side then 0 else amt)) * 10000 \<le> MAX_UINT256 \<and>
       sender e2 \<noteq> 0 \<and> this e2 \<noteq> 0 \<and> amt \<le> balances s2 (sender e2) \<and>
       (allowances s2 (sender e2) (this e2) = MAX_UINT256 \<or>
        amt \<le> allowances s2 (sender e2) (this e2)))"
  proof
    assume "\<exists>t. stake s2 e2 pid2 amt side = Inr t"
    then obtain t where "stake s2 e2 pid2 amt side = Inr t" by blast
    then show "registered (agents s2 (sender e2)) \<and> status (proposals s2 pid2) = Pending \<and>
       timestamp e2 < expiresAt (proposals s2 pid2) \<and>
       amount (stakes s2 pid2 (sender e2)) = 0 \<and> 0 < amt \<and>
       totalStaked (agents s2 (sender e2)) + amt \<le> MAX_UINT256 \<and>
       (totalStakeFor (proposals s2 pid2) + (if side then amt else 0)) * 10000 \<le> MAX_UINT256 \<and>
       (totalStakeAgainst (proposals s2 pid2) + (if side then 0 else amt)) * 10000 \<le> MAX_UINT256 \<and>
       sender e2 \<noteq> 0 \<and> this e2 \<noteq> 0 \<and> amt \<le> balances s2 (sender e2) \<and>
       (allowances s2 (sender e2) (this e2) = MAX_UINT256 \<or>
        amt \<le> allowances s2 (sender e2) (this e2))"
      by (rule stake_accepted_only)
  next
    assume "registered (agents s2 (sender e2)) \<and> status (proposals s2 pid2) = Pending \<and>
       timestamp e2 < expiresAt (proposals s2 pid2) \<and>
       amount (stakes s2 pid2 (sender e2)) = 0 \<and> 0 < amt \<and>
       totalStaked (agents s2 (sender e2)) + amt \<le> MAX_UINT256 \<and>
       (totalStakeFor (proposals s2 pid2) + (if side then amt else 0)) * 10000 \<le> MAX_UINT256 \<and>
       (totalStakeAgainst (proposals s2 pid2) + (if side then 0 else amt)) * 10000 \<le> MAX_UINT256 \<and>
       sender e2 \<noteq> 0 \<and> this e2 \<noteq> 0 \<and> amt \<le> balances s2 (sender e2) \<and>
       (allowances s2 (sender e2) (this e2) = MAX_UINT256 \<or>
        amt \<le> allowances s2 (sender e2) (this e2))"
    then show "\<exists>t. stake s2 e2 pid2 amt side = Inr t"
      by (intro stake_accepted) simp_all
  qed
next
  assume st: "stake s2 e2 pid2 amt side = Inr s3"
  from stake_Inr_fields(3) [OF st] stake_Inr_pre [OF st]
  show "registered (agents s3 (sender e2))" by simp
  from stake_Inr_fields(2) [OF st]
  show "amount (stakes s3 pid2 (sender e2)) = amt" by simp
  from stake_Inr_fields(2) [OF st]
  show "isFor (stakes s3 pid2 (sender e2)) = side" by simp
  from st show "cooldownUntil (agents s3 b) = cooldownUntil (agents s2 b)"
    by (rule stake_keeps_cooldown)
next
  assume cp: "createProposal H s1 e1 tok dir initialStake = Inr (pid1, s4)"
  from createProposal_Inr_fields(3) [OF cp] createProposal_Inr_pre [OF cp]
  show "registered (agents s4 (sender e1))" by simp
next
  assume "registered (agents s5 a)"
  then show "registered (agents (run H s5 txs) a)"
    by (rule run_registered_kept)
qed

theorem C9_cooldown_witness:
  "claimRewards scenarioB (at mo 1040) P = Inr claimedB \<and>
   cooldownUntil (agents claimedB mo) = 1100 \<and>
   registered (agents claimedB mo) \<and>
   createProposal example_hash claimedB (at mo 1099) targetToken Short 5000 = Inl AgentOnCooldown \<and>
   createProposal example_hash claimedB (at mo 1100) targetToken Short 5000 \<noteq> Inl AgentOnCooldown \<and>
   creator (proposals otherB R) = degen \<and>
   cooldownUntil (agents otherB mo) = 1100 \<and>
   timestamp (at mo 1060) < cooldownUntil (agents otherB mo) \<and>
   createProposal example_hash otherB (at mo 1060) targetToken Short 5000 = Inl AgentOnCooldown \<and>
   (\<exists>t. stake otherB (at mo 1060) R 5000 True = Inr t) \<and>
   stake otherB (at mo 1060) R 5000 True = Inr cooledB \<and>
   amount (stakes cooledB R mo) = 5000 \<and> isFor (stakes cooledB R mo) \<and>
   cooldownUntil (agents cooledB mo) = 1100"
proof -
  note c9 = C9_cooldown [where s = scenarioB and e = "at mo 1040" and pid = P and s' = claimedB
      and H = example_hash and tok = targetToken and dir = Short
      and initialStake = 5000 and ?s2.0 = otherB and ?e2.0 = "at mo 1060" and ?pid2.0 = R
      and amt = 5000 and side = True and ?s3.0 = cooledB and b = mo and ?s5.0 = created and a = mo
      and txs = "[(at vox 1000, StakeOn P 25000 False), (at mo 1040, ClaimRewards P)]"]
  have "registered (agents (run example_hash created
          [(at vox 1000, StakeOn P 25000 False), (at mo 1040, ClaimRewards P)]) mo)"
    using c9 [where ?s1.0 = claimedB and ?e1.0 = "at mo 1099"] created_facts by blast
  then have reg: "registered (agents claimedB mo)"
    by (simp add: claimedB_def scenarioB_def run_def)
  have cd: "cooldownUntil (agents claimedB mo) = 1100"
    using c9 [where ?s1.0 = claimedB and ?e1.0 = "at mo 1099"] claim_runs(2) scenarioB_facts
    by (simp add: at_def)
  have blocked: "createProposal example_hash claimedB (at mo 1099) targetToken Short 5000 = Inl AgentOnCooldown"
    using c9 [where ?s1.0 = claimedB and ?e1.0 = "at mo 1099"] cd reg
    by (simp add: at_def)
  have free: "createProposal example_hash claimedB (at mo 1100) targetToken Short 5000 \<noteq> Inl AgentOnCooldown"
    using c9 [where ?s1.0 = claimedB and ?e1.0 = "at mo 1100"] cd reg
    by (simp add: at_def)
  have blocked2: "createProposal example_hash otherB (at mo 1060) targetToken Short 5000 = Inl AgentOnCooldown"
    using c9 [where ?s1.0 = otherB and ?e1.0 = "at mo 1060"] otherB_facts
    by (simp add: at_def)
  have accepted: "\<exists>t. stake otherB (at mo 1060) R 5000 True = Inr t"
    using c9 [where ?s1.0 = otherB and ?e1.0 = "at mo 1060"] otherB_facts
    by (simp add: at_def MAX_UINT256_def names_distinct)
  have run: "stake otherB (at mo 1060) R 5000 True = Inr cooledB"
    by (simp add: otherB_eq cooledB_eq model_defs)
  have after: "amount (stakes cooledB R mo) = 5000 \<and> isFor (stakes cooledB R mo) \<and>
               cooldownUntil (agents cooledB mo) = 1100"
    using c9 [where ?s1.0 = otherB and ?e1.0 = "at mo 1060"] run otherB_facts
    by (simp add: at_def)
  have before: "timestamp (at mo 1060) < cooldownUntil (agents otherB mo)"
    using otherB_facts by (simp add: at_def)
  from cd reg blocked free blocked2 accepted run after before claim_runs(2) otherB_facts
  show ?thesis by blast
qed

text \<open>
  C10. \<open>createProposal\<close> and \<open>stake\<close> leave the caller with a stake on the
  proposal. A participant with a stake on a proposal has every further \<open>stake\<close> on it
  rejected: with AlreadyStaked while the proposal is Pending and unexpired, with
  ProposalNotActive once it is finalized or past its expiry (NotRegisteredAgent for a caller
  that is not registered). The amount and side of the stake are the same after any sequence
  of transactions none of which is a \<open>createProposal\<close> deriving that proposal's identifier.
\<close>

theorem C10_single_stake:
  "(createProposal H s0 e0 tok dir initialStake = Inr (pid0, s1) \<longrightarrow>
      0 < amount (stakes s1 pid0 (sender e0))) \<and>
   (stake s2 e2 pid2 amt2 side2 = Inr s3 \<longrightarrow> 0 < amount (stakes s3 pid2 (sender e2))) \<and>
   (0 < amount (stakes s pid (sender e)) \<longrightarrow>
      stake s e pid amt side =
        Inl (if \<not> registered (agents s (sender e)) then NotRegisteredAgent
             else if status (proposals s pid) = Pending \<and> timestamp e < expiresAt (proposals s pid)
             then AlreadyStaked else ProposalNotActive)) \<and>
   (0 < amount (stakes s pid a) \<and> (\<forall>tx \<in> set txs. \<not> recreates H pid tx) \<longrightarrow>
      amount (stakes (run H s txs) pid a) = amount (stakes s pid a) \<and>
      isFor (stakes (run H s txs) pid a) = isFor (stakes s pid a))"
proof (intro conjI impI)
  assume cp: "createProposal H s0 e0 tok dir initialStake = Inr (pid0, s1)"
  from createProposal_Inr_fields(2) [OF cp] createProposal_Inr_pre [OF cp]
  show "0 < amount (stakes s1 pid0 (sender e0))" by simp
next
  assume st: "stake s2 e2 pid2 amt2 side2 = Inr s3"
  from stake_Inr_fields(2) [OF st] stake_Inr_pre [OF st]
  show "0 < amount (stakes s3 pid2 (sender e2))" by simp
next
  assume "0 < amount (stakes s pid (sender e))"
  then show "stake s e pid amt side =
        Inl (if \<not> registered (agents s (sender e)) then NotRegisteredAgent
             else if status (proposals s pid) = Pending \<and> timestamp e < expiresAt (proposals s pid)
             then AlreadyStaked else ProposalNotActive)"
    by (rule stake_again)
next
  assume a: "0 < amount (stakes s pid a) \<and> (\<forall>tx \<in> set txs. \<not> recreates H pid tx)"
  then have k: "amount (stakes (run H s txs) pid a) = amount (stakes s pid a) \<and>
         isFor (stakes (run H s txs) pid a) = isFor (stakes s pid a) \<and>
         (claimed (stakes s pid a) \<longrightarrow> claimed (stakes (run H s txs) pid a))"
    by (intro run_stake_kept) simp_all
  from k show "amount (stakes (run H s txs) pid a) = amount (stakes s pid a)" by simp
  from k show "isFor (stakes (run H s txs) pid a) = isFor (stakes s pid a)" by simp
qed

theorem C10_single_stake_witness:
  "createProposal example_hash world (at mo 1000) targetToken Long 10000 = Inr (P, created) \<and>
   amount (stakes created P mo) = 10000 \<and>
   stake created (at mo 1001) P 5000 True = Inl AlreadyStaked \<and>
   stake created (at mo 1001) P 5000 False = Inl AlreadyStaked \<and>
   amount (stakes fundedA P mo) = 10000 \<and> isFor (stakes fundedA P mo)"
proof -
  have a: "stake created (at mo 1001) P 5000 True = Inl AlreadyStaked"
    using C10_single_stake [of example_hash world "at mo 1000" targetToken Long 10000 P created
        created "at mo 1001" P 5000 True _ created P "at mo 1001" 5000 True mo "[]"]
      created_facts
    by (simp add: at_def)
  have b: "stake created (at mo 1001) P 5000 False = Inl AlreadyStaked"
    using C10_single_stake [of example_hash world "at mo 1000" targetToken Long 10000 P created
        created "at mo 1001" P 5000 True _ created P "at mo 1001" 5000 False mo "[]"]
      created_facts
    by (simp add: at_def)
  have c: "amount (stakes fundedA P mo) = 10000 \<and> isFor (stakes fundedA P mo)"
    using C10_single_stake [of example_hash world "at mo 1000" targetToken Long 10000 P created
        created "at mo 1001" P 5000 True _ scenarioA P "at mo 1001" 5000 False mo
        "[(at degen 1000, CreateProposal targetToken Short 10000),
      (at mo 1040, ClaimRewards P), (at vox 1040, ClaimRewards P),
      (at stranger 1041, ExpireProposal Q)]"]
      funded_txs scenarioA_facts
    by (simp add: fundedA_def)
  from a b c created_run created_facts show ?thesis by blast
qed

theorem C10_counterexample:
  "amount (stakes scenarioA P mo) = 10000 \<and>
   stake scenarioA (at mo 1001) P 5000 True = Inl ProposalNotActive \<and>
   amount (stakes created P mo) = 10000 \<and>
   stake created (at mo 1030) P 5000 True = Inl ProposalNotActive \<and>
   amount (stakes scenarioC P mo) = 10000 \<and>
   exec example_hash scenarioC (at mo 1000) (CreateProposal targetToken Long 5000) = Inr recreatedC \<and>
   amount (stakes recreatedC P mo) = 5000"
proof -
  have a: "stake scenarioA (at mo 1001) P 5000 True = Inl ProposalNotActive"
    by (simp add: scenarioA_eq model_defs)
  have b: "stake created (at mo 1030) P 5000 True = Inl ProposalNotActive"
    by (simp add: created_eq model_defs)
  have c: "exec example_hash scenarioC (at mo 1000) (CreateProposal targetToken Long 5000) = Inr recreatedC"
    by (simp add: scenarioC_eq recreatedC_eq model_defs)
  have d: "amount (stakes recreatedC P mo) = 5000"
    by (simp add: recreatedC_eq names_distinct)
  from a b c d scenarioA_facts created_facts scenarioC_facts show ?thesis by simp
qed

end
